theory Spec2Isabelle
  imports Main "HOL-Library.Word" "HOL-Library.AList"
begin

section \<open>Python values, exceptions and process outcomes\<close>

text \<open>
  The three scripts are straight-line Python programs that talk to two remote services.
  Everything a script reads from outside (environment variables, the source file, the
  answers of the PagerDuty API and of the Veza client) is an input of the model; what the
  script prints, the calls it makes and the way the process ends are its result.
\<close>

type_synonym byte = "8 word"

text \<open>
  \<open>OAAClientError\<close> of the oaaclient package: \<open>error\<close>, \<open>message\<close>, \<open>status_code\<close>
  (an integer or \<open>None\<close>) and \<open>details\<close>. The constructor always sets \<open>details\<close>
  (to the empty list when none are given), so \<open>hasattr(e, 'details')\<close> holds for every
  such exception. \<open>err_str\<close> is \<open>str(e)\<close>, the text Python gives the exception from
  the pair of arguments it was raised with; the model takes it as it comes.
\<close>

record oaa_error =
  err_error :: string
  err_message :: string
  err_status_code :: "nat option"
  err_details :: "string list"
  err_str :: string

text \<open>
  The exceptions that can reach the scripts. \<open>OtherFault\<close> stands for any exception of
  the HTTP layer or of JSON decoding (requests, missing keys of a response body),
  \<open>OSError\<close> for a file that cannot be opened or read.
\<close>

datatype exn =
    OAAClientError oaa_error
  | OAATemplateException
  | KeyError "string option"
  | NameError string
  | OSError
  | OtherFault

text \<open>How a process ends: \<open>main\<close> returns, \<open>sys.exit(n)\<close>, or an uncaught exception.\<close>

datatype ending = Finished | SysExit nat | Uncaught exn

text \<open>The exit status CPython gives the process: 1 for an uncaught exception.\<close>

fun exit_status :: "ending \<Rightarrow> nat" where
  "exit_status Finished = 0"
| "exit_status (SysExit n) = n"
| "exit_status (Uncaught e) = 1"

subsection \<open>Formatting\<close>

text \<open>\<open>str(n)\<close> for a non-negative integer.\<close>

fun str_nat :: "nat \<Rightarrow> string" where
  "str_nat n =
     (if n < 10 then [''0123456789'' ! n]
      else str_nat (n div 10) @ [''0123456789'' ! (n mod 10)])"

text \<open>A value inside an f-string: \<open>None\<close> is rendered as the text \<open>None\<close>.\<close>

definition fmt_str :: "string option \<Rightarrow> string" where
  "fmt_str v = (case v of None \<Rightarrow> ''None'' | Some s \<Rightarrow> s)"

definition fmt_nat :: "nat option \<Rightarrow> string" where
  "fmt_nat v = (case v of None \<Rightarrow> ''None'' | Some n \<Rightarrow> str_nat n)"

text \<open>\<open>f"{e.error}: {e.message} ({e.status_code})"\<close>, used by all three scripts.\<close>

definition error_line :: "oaa_error \<Rightarrow> string" where
  "error_line e =
     err_error e @ '': '' @ err_message e @ '' ('' @ fmt_nat (err_status_code e) @ '')''"

section \<open>Base64 (Python's \<open>base64\<close> module, RFC 4648 standard alphabet)\<close>

definition b64_alphabet :: string where
  "b64_alphabet = ''ABCDEFGHIJKLMNOPQRSTUVWXYZabcdefghijklmnopqrstuvwxyz0123456789+/''"

text \<open>The character of a 6-bit group.\<close>

definition b64_char :: "byte \<Rightarrow> char" where
  "b64_char s = b64_alphabet ! unat s"

text \<open>
  The four 6-bit groups of three bytes \<open>a\<close>, \<open>b\<close>, \<open>c\<close>, from the most significant
  bit down.
\<close>

definition sextet0 :: "byte \<Rightarrow> byte" where
  "sextet0 a = drop_bit 2 a"

definition sextet1 :: "byte \<Rightarrow> byte \<Rightarrow> byte" where
  "sextet1 a b = or (push_bit 4 (take_bit 2 a)) (drop_bit 4 b)"

definition sextet2 :: "byte \<Rightarrow> byte \<Rightarrow> byte" where
  "sextet2 b c = or (push_bit 2 (take_bit 4 b)) (drop_bit 6 c)"

definition sextet3 :: "byte \<Rightarrow> byte" where
  "sextet3 c = take_bit 6 c"

text \<open>
  \<open>base64.b64encode\<close>: three bytes become four characters; a last group of one or two
  bytes is filled with zero bits and the output padded with \<open>=\<close>.
\<close>

fun b64encode :: "byte list \<Rightarrow> string" where
  "b64encode [] = []"
| "b64encode [a] =
     [b64_char (sextet0 a), b64_char (sextet1 a 0), CHR ''='', CHR ''='']"
| "b64encode [a, b] =
     [b64_char (sextet0 a), b64_char (sextet1 a b), b64_char (sextet2 b 0), CHR ''='']"
| "b64encode (a # b # c # rest) =
     [b64_char (sextet0 a), b64_char (sextet1 a b), b64_char (sextet2 b c),
      b64_char (sextet3 c)] @ b64encode rest"

fun index_of :: "'a list \<Rightarrow> 'a \<Rightarrow> nat option" where
  "index_of [] x = None"
| "index_of (y # ys) x = (if x = y then Some 0 else map_option Suc (index_of ys x))"

definition b64_index :: "char \<Rightarrow> byte option" where
  "b64_index c = map_option of_nat (index_of b64_alphabet c)"

text \<open>The three bytes of four 6-bit groups; bits shifted beyond the byte are dropped.\<close>

definition byte0 :: "byte \<Rightarrow> byte \<Rightarrow> byte" where
  "byte0 s0 s1 = or (push_bit 2 s0) (drop_bit 4 s1)"

definition byte1 :: "byte \<Rightarrow> byte \<Rightarrow> byte" where
  "byte1 s1 s2 = or (push_bit 4 s1) (drop_bit 2 s2)"

definition byte2 :: "byte \<Rightarrow> byte \<Rightarrow> byte" where
  "byte2 s2 s3 = or (push_bit 6 s2) s3"

text \<open>Four characters of the alphabet give three bytes.\<close>

definition decode_quad :: "char \<Rightarrow> char \<Rightarrow> char \<Rightarrow> char \<Rightarrow> byte list option" where
  "decode_quad c0 c1 c2 c3 =
     (case (b64_index c0, b64_index c1, b64_index c2, b64_index c3) of
        (Some s0, Some s1, Some s2, Some s3) \<Rightarrow>
          Some [byte0 s0 s1, byte1 s1 s2, byte2 s2 s3]
      | _ \<Rightarrow> None)"

text \<open>The last four characters may end in one or two padding characters.\<close>

definition decode_last :: "char \<Rightarrow> char \<Rightarrow> char \<Rightarrow> char \<Rightarrow> byte list option" where
  "decode_last c0 c1 c2 c3 =
     (if c2 = CHR ''='' \<and> c3 = CHR ''='' then
        (case (b64_index c0, b64_index c1) of
           (Some s0, Some s1) \<Rightarrow> Some [byte0 s0 s1]
         | _ \<Rightarrow> None)
      else if c3 = CHR ''='' then
        (case (b64_index c0, b64_index c1, b64_index c2) of
           (Some s0, Some s1, Some s2) \<Rightarrow> Some [byte0 s0 s1, byte1 s1 s2]
         | _ \<Rightarrow> None)
      else decode_quad c0 c1 c2 c3)"

text \<open>
  Modelled from the spec: the decoder is not part of the repository (the platform decodes
  \<open>csv_data\<close>); the spec's ``base64-decoded'' is taken as RFC 4648 decoding of padded
  text, \<open>None\<close> for text that is not a base64 encoding.
\<close>

fun b64decode :: "string \<Rightarrow> byte list option" where
  "b64decode [] = Some []"
| "b64decode (c0 # c1 # c2 # c3 # rest) =
     (if rest = [] then decode_last c0 c1 c2 c3
      else (case decode_quad c0 c1 c2 c3 of
              None \<Rightarrow> None
            | Some bs \<Rightarrow> map_option ((@) bs) (b64decode rest)))"
| "b64decode _ = None"

section \<open>The authorization graph (\<open>oaaclient.templates\<close>)\<close>

text \<open>
  The scripts build the graph through the oaaclient package, which is not part of the
  repository. Its classes are modelled as records and its methods as functions on them,
  with the behaviour the scripts rely on: a dictionary keeps its insertion order (an
  association list, \<open>map_of\<close> to look up, \<open>AList.update\<close> to assign), a method
  that rejects its arguments raises \<open>OAATemplateException\<close>.
\<close>

datatype oaa_permission =
    DataRead | DataWrite | DataCreate | DataDelete
  | MetadataRead | MetadataWrite | MetadataCreate | MetadataDelete
  | NonData | Uncategorized

datatype oaa_property_type = BOOLEAN | NUMBER | STRING | STRING_LIST | TIMESTAMP

text \<open>A JSON value as the scripts meet them: \<open>None\<close>, a string or a boolean.\<close>

datatype pyval = PNone | PStr string | PBool bool

text \<open>
  \<open>d.get(key)\<close> on a record of the source API: \<open>None\<close> when the key is missing or
  null. The string fields are read as \<open>string option\<close>, \<open>billed\<close> as \<open>bool option\<close>.
\<close>

type_synonym ident = "string option"

definition of_str :: "string option \<Rightarrow> pyval" where
  "of_str v = (case v of None \<Rightarrow> PNone | Some s \<Rightarrow> PStr s)"

definition of_bool :: "bool option \<Rightarrow> pyval" where
  "of_bool v = (case v of None \<Rightarrow> PNone | Some b \<Rightarrow> PBool b)"

text \<open>\<open>properties.get(name)\<close>.\<close>

definition properties_get :: "(string \<times> pyval) list \<Rightarrow> string \<Rightarrow> pyval" where
  "properties_get props name = (case map_of props name of None \<Rightarrow> PNone | Some v \<Rightarrow> v)"

record prop_defs =
  local_user_properties :: "(string \<times> oaa_property_type) list"
  resource_properties :: "(string \<times> (string \<times> oaa_property_type) list) list"

record role_assignment =
  apply_to_application :: bool
  ra_resources :: "ident list"

record local_user =
  lu_name :: ident
  lu_unique_id :: ident
  lu_identities :: "ident list"
  lu_groups :: "string list"
  lu_role_assignments :: "(ident \<times> role_assignment) list"
  lu_properties :: "(string \<times> pyval) list"

record local_group =
  lg_name :: ident
  lg_unique_id :: ident

record local_role =
  lr_name :: string
  lr_unique_id :: "string option"
  lr_permissions :: "string list"

record custom_resource =
  cr_name :: ident
  cr_resource_type :: string
  cr_unique_id :: ident
  cr_description :: "string option"
  cr_properties :: "(string \<times> pyval) list"

record application =
  app_name :: string
  app_application_type :: string
  property_definitions :: prop_defs
  custom_permissions :: "(string \<times> oaa_permission list) list"
  local_roles :: "(string \<times> local_role) list"
  local_users :: "(ident \<times> local_user) list"
  local_groups :: "(ident \<times> local_group) list"
  resources :: "(ident \<times> custom_resource) list"

text \<open>\<open>CustomApplication(name, application_type)\<close>: every collection starts empty.\<close>

definition CustomApplication :: "string \<Rightarrow> string \<Rightarrow> application" where
  "CustomApplication name application_type =
     \<lparr>app_name = name, app_application_type = application_type,
      property_definitions = \<lparr>local_user_properties = [], resource_properties = []\<rparr>,
      custom_permissions = [], local_roles = [], local_users = [], local_groups = [],
      resources = []\<rparr>"

definition define_local_user_property ::
  "string \<Rightarrow> oaa_property_type \<Rightarrow> application \<Rightarrow> application" where
  "define_local_user_property name ty app =
     app\<lparr>property_definitions := (property_definitions app)
       \<lparr>local_user_properties :=
          AList.update name ty (local_user_properties (property_definitions app))\<rparr>\<rparr>"

definition define_resource_property ::
  "string \<Rightarrow> string \<Rightarrow> oaa_property_type \<Rightarrow> application \<Rightarrow> application" where
  "define_resource_property resource_type name ty app =
     (let defs = property_definitions app;
          old = (case map_of (resource_properties defs) resource_type of
                   None \<Rightarrow> [] | Some ps \<Rightarrow> ps)
      in app\<lparr>property_definitions := defs
           \<lparr>resource_properties :=
              AList.update resource_type (AList.update name ty old)
                (resource_properties defs)\<rparr>\<rparr>)"

text \<open>\<open>add_custom_permission(name, permissions)\<close>: stored under its name.\<close>

definition add_custom_permission ::
  "string \<Rightarrow> oaa_permission list \<Rightarrow> application \<Rightarrow> application" where
  "add_custom_permission name permissions app =
     app\<lparr>custom_permissions := AList.update name permissions (custom_permissions app)\<rparr>"

text \<open>
  \<open>str.lower()\<close> on characters below 256: the letters A to Z and the capital letters of
  Latin-1 (0xC0 to 0xDE without the multiplication sign 0xD7) go to the letter 32 places
  further, every other character stays.
\<close>

definition upper_letters :: string where
  "upper_letters =
     ''ABCDEFGHIJKLMNOPQRSTUVWXYZ'' @
     [CHR 0xC0, CHR 0xC1, CHR 0xC2, CHR 0xC3, CHR 0xC4, CHR 0xC5, CHR 0xC6, CHR 0xC7,
      CHR 0xC8, CHR 0xC9, CHR 0xCA, CHR 0xCB, CHR 0xCC, CHR 0xCD, CHR 0xCE, CHR 0xCF,
      CHR 0xD0, CHR 0xD1, CHR 0xD2, CHR 0xD3, CHR 0xD4, CHR 0xD5, CHR 0xD6,
      CHR 0xD8, CHR 0xD9, CHR 0xDA, CHR 0xDB, CHR 0xDC, CHR 0xDD, CHR 0xDE]"

definition lower_letters :: string where
  "lower_letters =
     ''abcdefghijklmnopqrstuvwxyz'' @
     [CHR 0xE0, CHR 0xE1, CHR 0xE2, CHR 0xE3, CHR 0xE4, CHR 0xE5, CHR 0xE6, CHR 0xE7,
      CHR 0xE8, CHR 0xE9, CHR 0xEA, CHR 0xEB, CHR 0xEC, CHR 0xED, CHR 0xEE, CHR 0xEF,
      CHR 0xF0, CHR 0xF1, CHR 0xF2, CHR 0xF3, CHR 0xF4, CHR 0xF5, CHR 0xF6,
      CHR 0xF8, CHR 0xF9, CHR 0xFA, CHR 0xFB, CHR 0xFC, CHR 0xFD, CHR 0xFE]"

definition lower_char :: "char \<Rightarrow> char" where
  "lower_char c = (case map_of (zip upper_letters lower_letters) c of None \<Rightarrow> c | Some l \<Rightarrow> l)"

definition lower :: "string \<Rightarrow> string" where
  "lower s = map lower_char s"

text \<open>
  \<open>local_users\<close>, \<open>local_groups\<close> and \<open>resources\<close> are case-insensitive
  dictionaries: a key that is a string is lower-cased before it is stored, looked up or
  tested for membership, \<open>None\<close> is left as it is. The lower-cased key is also the
  one a \<open>KeyError\<close> reports.
\<close>

definition ci_key :: "ident \<Rightarrow> ident" where
  "ci_key k = map_option lower k"

text \<open>\<open>if unique_id:\<close>: an id that is \<open>None\<close> or empty counts as not given.\<close>

definition given :: "ident \<Rightarrow> ident" where
  "given unique_id =
     (case unique_id of None \<Rightarrow> None | Some s \<Rightarrow> (if s = [] then None else Some s))"

text \<open>
  The key under which a user, a group or a resource is stored: its \<open>unique_id\<close> when
  one is given, its name otherwise, lower-cased by the dictionary.
\<close>

definition entity_key :: "ident \<Rightarrow> ident \<Rightarrow> ident" where
  "entity_key unique_id name =
     ci_key (case given unique_id of None \<Rightarrow> name | Some s \<Rightarrow> Some s)"

text \<open>
  Modelled from the spec: the package's duplicate check is not in the repository; the
  spec's invariant is that a unique id is unique within its entity kind and that a
  duplicate is detected before the push. Adding an entity under a key already present
  raises.
\<close>

definition add_local_role ::
  "string \<Rightarrow> string option \<Rightarrow> string list \<Rightarrow> application \<Rightarrow> exn + application" where
  "add_local_role name unique_id permissions app =
     (let key = (case given unique_id of None \<Rightarrow> name | Some k \<Rightarrow> k)
      in if map_of (local_roles app) key \<noteq> None then Inl OAATemplateException
         else Inr (app\<lparr>local_roles := local_roles app @
                [(key, \<lparr>lr_name = name, lr_unique_id = unique_id,
                        lr_permissions = permissions\<rparr>)]\<rparr>))"

text \<open>
  \<open>add_local_user(name, unique_id=..., identities=...)\<close> returns the new object, which
  is also the entry of \<open>local_users\<close>; the model returns the key with it. The object
  keeps the \<open>unique_id\<close> only when one is given: an empty id becomes \<open>None\<close>.
\<close>

definition add_local_user ::
  "ident \<Rightarrow> ident \<Rightarrow> ident list \<Rightarrow> application \<Rightarrow> exn + (application \<times> ident \<times> local_user)" where
  "add_local_user name unique_id identities app =
     (let key = entity_key unique_id name;
          new_user = \<lparr>lu_name = name, lu_unique_id = given unique_id,
                      lu_identities = identities,
                      lu_groups = [], lu_role_assignments = [], lu_properties = []\<rparr>
      in if map_of (local_users app) key \<noteq> None then Inl OAATemplateException
         else Inr (app\<lparr>local_users := local_users app @ [(key, new_user)]\<rparr>, key, new_user))"

definition add_local_group :: "ident \<Rightarrow> ident \<Rightarrow> application \<Rightarrow> exn + application" where
  "add_local_group name unique_id app =
     (let key = entity_key unique_id name
      in if map_of (local_groups app) key \<noteq> None then Inl OAATemplateException
         else Inr (app\<lparr>local_groups := local_groups app @
                [(key, \<lparr>lg_name = name, lg_unique_id = given unique_id\<rparr>)]\<rparr>))"

definition add_resource ::
  "ident \<Rightarrow> string \<Rightarrow> ident \<Rightarrow> application \<Rightarrow> exn + (application \<times> ident \<times> custom_resource)" where
  "add_resource name resource_type unique_id app =
     (let key = entity_key unique_id name;
          resource = \<lparr>cr_name = name, cr_resource_type = resource_type,
                      cr_unique_id = given unique_id, cr_description = None,
                      cr_properties = []\<rparr>
      in if map_of (resources app) key \<noteq> None then Inl OAATemplateException
         else Inr (app\<lparr>resources := resources app @ [(key, resource)]\<rparr>, key, resource))"

text \<open>
  An object handed out by \<open>add_local_user\<close> or \<open>add_resource\<close> is the dictionary's
  entry, so what the script does to it is seen through the dictionary: the mutated object
  is written back under its key.
\<close>

definition store_user :: "ident \<Rightarrow> local_user \<Rightarrow> application \<Rightarrow> application" where
  "store_user key u app = app\<lparr>local_users := AList.update key u (local_users app)\<rparr>"

definition store_resource :: "ident \<Rightarrow> custom_resource \<Rightarrow> application \<Rightarrow> application" where
  "store_resource key r app = app\<lparr>resources := AList.update key r (resources app)\<rparr>"

text \<open>
  \<open>add_role(role, resources=None, apply_to_application=None)\<close> of a local user: the
  role's assignment is created on first use, the application flag is set when one is
  given, and each resource that the assignment does not hold yet is added to it. The call
  does not raise. Resources are referred to by their key.
\<close>

definition add_role ::
  "ident \<Rightarrow> ident list \<Rightarrow> bool option \<Rightarrow> local_user \<Rightarrow> local_user" where
  "add_role role rs apply_to u =
     (let old = (case map_of (lu_role_assignments u) role of
                   None \<Rightarrow> \<lparr>apply_to_application = False, ra_resources = []\<rparr>
                 | Some ra \<Rightarrow> ra);
          flagged = (case apply_to of None \<Rightarrow> old
                     | Some b \<Rightarrow> old\<lparr>apply_to_application := b\<rparr>)
      in u\<lparr>lu_role_assignments :=
             AList.update role
               (flagged\<lparr>ra_resources :=
                  fold (\<lambda>r held. if r \<in> set held then held else held @ [r]) rs
                    (ra_resources flagged)\<rparr>)
               (lu_role_assignments u)\<rparr>)"

text \<open>A value as \<open>str\<close> renders it.\<close>

definition fmt_val :: "pyval \<Rightarrow> string" where
  "fmt_val v = (case v of PNone \<Rightarrow> ''None'' | PStr s \<Rightarrow> s
                | PBool b \<Rightarrow> (if b then ''True'' else ''False''))"

text \<open>
  \<open>add_group(group)\<close>: the group is recorded as a string (\<open>None\<close> as the text
  \<open>None\<close>), once.
\<close>

definition add_group :: "pyval \<Rightarrow> local_user \<Rightarrow> local_user" where
  "add_group g u =
     (if fmt_val g \<in> set (lu_groups u) then u
      else u\<lparr>lu_groups := lu_groups u @ [fmt_val g]\<rparr>)"

text \<open>
  Modelled from the spec: a custom property may only be set on an entity if its
  definition was registered first; setting an undeclared property is a contract
  violation.
\<close>

definition set_user_property ::
  "prop_defs \<Rightarrow> string \<Rightarrow> pyval \<Rightarrow> local_user \<Rightarrow> exn + local_user" where
  "set_user_property defs name v u =
     (if map_of (local_user_properties defs) name = None then Inl OAATemplateException
      else Inr (u\<lparr>lu_properties := AList.update name v (lu_properties u)\<rparr>))"

definition set_resource_property ::
  "prop_defs \<Rightarrow> string \<Rightarrow> pyval \<Rightarrow> custom_resource \<Rightarrow> exn + custom_resource" where
  "set_resource_property defs name v r =
     (case map_of (resource_properties defs) (cr_resource_type r) of
        None \<Rightarrow> Inl OAATemplateException
      | Some ps \<Rightarrow>
          (if map_of ps name = None then Inl OAATemplateException
           else Inr (r\<lparr>cr_properties := AList.update name v (cr_properties r)\<rparr>)))"

section \<open>The outside world\<close>

subsection \<open>The source API (PagerDuty)\<close>

text \<open>
  The records of the three collections, with the fields the Model Builder reads. Fields
  read with \<open>.get\<close> may be missing; a member is read with subscripts
  (\<open>member['user']['id']\<close>, \<open>member['role']\<close>) and has both fields.
\<close>

record pd_user =
  u_name :: ident
  u_id :: ident
  u_email :: ident
  u_role :: ident
  u_billed :: "bool option"

record pd_team =
  t_name :: ident
  t_id :: ident
  t_description :: ident
  t_summary :: ident
  t_default_role :: ident

record pd_member =
  m_user_id :: string
  m_role :: string

text \<open>
  One answer per request: \<open>GET /users?limit=100\<close>, \<open>GET /teams?limit=100\<close> and
  \<open>GET /teams/{team_id}/members\<close>, each either the decoded collection or the fault
  raised on the way to it. The member list is asked for by the value of the resource's
  \<open>pagerduty_id\<close> property, which the f-string puts into the address.
\<close>

record pagerduty =
  get_users :: "exn + pd_user list"
  get_teams :: "exn + pd_team list"
  get_members :: "pyval \<Rightarrow> exn + pd_member list"

subsection \<open>The sink platform (Veza, through \<open>OAAClient\<close>)\<close>

type_synonym provider = string

record response =
  warnings :: "string list option"

record push_request =
  pr_id :: "string option"
  pr_data_source_id :: "string option"
  pr_csv_data :: string

record veza =
  new_client :: "exn + unit"
  get_provider :: "string \<Rightarrow> exn + provider option"
  create_provider :: "string \<Rightarrow> string \<Rightarrow> exn + provider"
  push_application :: "string \<Rightarrow> string \<Rightarrow> application \<Rightarrow> exn + response"
  api_post :: "string \<Rightarrow> push_request \<Rightarrow> exn + unit"

text \<open>The calls a script makes on the platform, in order.\<close>

datatype sink_call =
    NewClient
  | GetProvider string
  | CreateProvider string string
  | PushApplication string string application
  | ApiPost string push_request

text \<open>What a run leaves behind: the lines printed, the calls made, how it ended.\<close>

record outcome =
  stdout :: "string list"
  stderr :: "string list"
  calls :: "sink_call list"
  ended :: ending

section \<open>The Model Builder (\<open>python.oaa.py\<close>)\<close>

text \<open>A \<open>for\<close> loop over a list whose body may raise: the first exception ends it.\<close>

fun for_each :: "('a \<Rightarrow> 's \<Rightarrow> exn + 's) \<Rightarrow> 'a list \<Rightarrow> 's \<Rightarrow> exn + 's" where
  "for_each body [] s = Inr s"
| "for_each body (x # xs) s =
     (case body x s of Inl e \<Rightarrow> Inl e | Inr s' \<Rightarrow> for_each body xs s')"

text \<open>Lines 19 to 23: the custom property schema.\<close>

definition define_properties :: "application \<Rightarrow> application" where
  "define_properties app =
     define_resource_property ''team'' ''default_role'' STRING
      (define_resource_property ''team'' ''summary'' STRING
        (define_resource_property ''team'' ''pagerduty_id'' STRING
          (define_local_user_property ''is_billed'' BOOLEAN
            (define_local_user_property ''email'' STRING app))))"

text \<open>Lines 26 to 35: the permissions, in the order of the calls.\<close>

definition permission_catalog :: "(string \<times> oaa_permission list) list" where
  "permission_catalog =
     [(''admin'', [DataWrite, DataRead, DataDelete, MetadataRead, MetadataWrite]),
      (''limited_user'', [DataRead, MetadataRead]),
      (''manager'', [DataWrite, DataRead, MetadataWrite, MetadataRead]),
      (''observer'', [DataRead, MetadataRead]),
      (''owner'', [DataWrite, DataRead, DataDelete, MetadataRead, MetadataWrite]),
      (''read_only_limited_user'', [MetadataRead]),
      (''read_only_user'', [DataRead, MetadataRead]),
      (''responder'', [DataWrite, DataRead]),
      (''restricted_access'', [MetadataRead, MetadataWrite]),
      (''user'', [DataRead, MetadataRead])]"

text \<open>Lines 38 to 46: the roles as (name, unique id, permissions).\<close>

definition role_catalog :: "(string \<times> string \<times> string list) list" where
  "role_catalog =
     [(''Global Admin'', ''admin'', [''admin'']),
      (''Responder'', ''limited_user'', [''limited_user'']),
      (''Observer'', ''observer'', [''observer'']),
      (''Account Owner'', ''owner'', [''owner'']),
      (''Limited Stakeholder'', ''read_only_limited_user'', [''read_only_limited_user'']),
      (''Full Stakeholder'', ''read_only_user'', [''read_only_user'']),
      (''Restricted Access'', ''restricted_access'', [''restricted_access'']),
      (''User'', ''user'', [''user'']),
      (''Manager'', ''manager'', [''manager''])]"

definition add_permissions :: "application \<Rightarrow> application" where
  "add_permissions app =
     fold (\<lambda>(name, permissions). add_custom_permission name permissions)
       permission_catalog app"

definition add_roles :: "application \<Rightarrow> exn + application" where
  "add_roles app =
     for_each (\<lambda>(name, unique_id, permissions). add_local_role name (Some unique_id) permissions)
       role_catalog app"

text \<open>Lines 51 to 60: the body of the loop over the users.\<close>

definition user_step :: "pd_user \<Rightarrow> application \<Rightarrow> exn + application" where
  "user_step user app =
     (case add_local_user (u_name user) (u_id user) [u_email user] app of
        Inl e \<Rightarrow> Inl e
      | Inr (app1, key, new_user) \<Rightarrow>
        (let u1 = add_role (u_role user) [] (Some True) new_user
         in case set_user_property (property_definitions app1) ''email''
                   (of_str (u_email user)) u1 of
              Inl e \<Rightarrow> Inl e
            | Inr u2 \<Rightarrow>
              (case set_user_property (property_definitions app1) ''is_billed''
                      (of_bool (u_billed user)) u2 of
                 Inl e \<Rightarrow> Inl e
               | Inr u3 \<Rightarrow> Inr (store_user key u3 app1))))"

text \<open>Lines 65 and 66.\<close>

definition group_step :: "pd_team \<Rightarrow> application \<Rightarrow> exn + application" where
  "group_step team app = add_local_group (t_name team) (t_id team) app"

text \<open>
  Line 73: \<open>team.get('description')[:255] if team.get('description') else None\<close>,
  under the comment of line 72 that the built-in description holds at most 1,024
  characters. An empty description is false in Python. An element of the model's string is
  one character of the Python string.
\<close>

definition truncated_description :: "ident \<Rightarrow> string option" where
  "truncated_description d =
     (case d of None \<Rightarrow> None | Some s \<Rightarrow> (if s = [] then None else Some (take 255 s)))"

text \<open>Lines 69 to 77: the resource is added by name, with no \<open>unique_id\<close>.\<close>

definition resource_step :: "pd_team \<Rightarrow> application \<Rightarrow> exn + application" where
  "resource_step team app =
     (case add_resource (t_name team) ''team'' None app of
        Inl e \<Rightarrow> Inl e
      | Inr (app1, key, resource) \<Rightarrow>
        (let r0 = resource\<lparr>cr_description := truncated_description (t_description team)\<rparr>
         in case set_resource_property (property_definitions app1) ''pagerduty_id''
                   (of_str (t_id team)) r0 of
              Inl e \<Rightarrow> Inl e
            | Inr r1 \<Rightarrow>
              (case set_resource_property (property_definitions app1) ''summary''
                      (of_str (t_summary team)) r1 of
                 Inl e \<Rightarrow> Inl e
               | Inr r2 \<Rightarrow>
                 (case set_resource_property (property_definitions app1) ''default_role''
                         (of_str (t_default_role team)) r2 of
                    Inl e \<Rightarrow> Inl e
                  | Inr r3 \<Rightarrow> Inr (store_resource key r3 app1)))))"

text \<open>
  Lines 87 and 90: \<open>app.local_users[member['user']['id']]\<close> looks the id up without
  regard to letter case and raises \<open>KeyError\<close>, with the lower-cased id, for a key
  that is not in the dictionary.
\<close>

definition member_step :: "ident \<Rightarrow> pyval \<Rightarrow> pd_member \<Rightarrow> application \<Rightarrow> exn + application" where
  "member_step resource_key team_id member app =
     (let key = ci_key (Some (m_user_id member))
      in case map_of (local_users app) key of
           None \<Rightarrow> Inl (KeyError key)
         | Some u \<Rightarrow>
           (let app1 = store_user key (add_role (Some (m_role member)) [resource_key] None u) app
            in case map_of (local_users app1) key of
                 None \<Rightarrow> Inl (KeyError key)
               | Some u2 \<Rightarrow> Inr (store_user key (add_group team_id u2) app1)))"

text \<open>Lines 80 to 90: one request per resource, then the loop over its members.\<close>

definition members_step ::
  "pagerduty \<Rightarrow> ident \<times> custom_resource \<Rightarrow> application \<Rightarrow> exn + application" where
  "members_step pd entry app =
     (let team_id = properties_get (cr_properties (snd entry)) ''pagerduty_id''
      in case get_members pd team_id of
           Inl e \<Rightarrow> Inl e
         | Inr members \<Rightarrow> for_each (member_step (fst entry) team_id) members app)"

text \<open>Lines 16 to 46: the application with its static schema.\<close>

definition declare_catalog :: "exn + application" where
  "declare_catalog =
     add_roles (add_permissions (define_properties
       (CustomApplication ''Sample App'' ''PagerDuty'')))"

text \<open>Lines 49 to 77: users, groups and resources from the two collections.\<close>

definition add_entities :: "pagerduty \<Rightarrow> application \<Rightarrow> exn + application" where
  "add_entities pd app =
     (case get_users pd of
        Inl e \<Rightarrow> Inl e
      | Inr users \<Rightarrow>
        (case for_each user_step users app of
           Inl e \<Rightarrow> Inl e
         | Inr app2 \<Rightarrow>
           (case get_teams pd of
              Inl e \<Rightarrow> Inl e
            | Inr teams \<Rightarrow>
              (case for_each group_step teams app2 of
                 Inl e \<Rightarrow> Inl e
               | Inr app3 \<Rightarrow> for_each resource_step teams app3))))"

text \<open>Lines 80 to 90, over the resources in the order they were added.\<close>

definition assign_members :: "pagerduty \<Rightarrow> application \<Rightarrow> exn + application" where
  "assign_members pd app = for_each (members_step pd) (resources app) app"

definition build_application :: "pagerduty \<Rightarrow> exn + application" where
  "build_application pd =
     (case declare_catalog of
        Inl e \<Rightarrow> Inl e
      | Inr app1 \<Rightarrow>
        (case add_entities pd app1 of
           Inl e \<Rightarrow> Inl e
         | Inr app4 \<Rightarrow> assign_members pd app4))"

text \<open>
  The end of \<open>main\<close> (lines 97 to 119; the Seed variant has the same lines with another
  provider name): the client, the provider by name or a new one, the push, and the report.
  Only \<open>OAAClientError\<close> raised by the push is caught; after the handler \<open>main\<close>
  returns.
\<close>

definition push_report :: "exn + response \<Rightarrow> string list \<times> string list \<times> ending" where
  "push_report result =
     (case result of
        Inr r \<Rightarrow>
          (case warnings r of
             None \<Rightarrow> ([], [], Finished)
           | Some ws \<Rightarrow>
               (if ws = [] then ([], [], Finished)
                else (''-- Push succeeded with warnings:'' # map (\<lambda>e. ''  - '' @ e) ws,
                      [], Finished)))
      | Inl (OAAClientError e) \<Rightarrow>
          ([], (''-- Error: '' @ error_line e) # map (\<lambda>d. ''  -- '' @ d) (err_details e),
           Finished)
      | Inl x \<Rightarrow> ([], [], Uncaught x))"

definition connect_and_push :: "veza \<Rightarrow> string \<Rightarrow> application \<Rightarrow> outcome" where
  "connect_and_push vz provider_name app =
     (case new_client vz of
        Inl e \<Rightarrow> \<lparr>stdout = [], stderr = [], calls = [NewClient], ended = Uncaught e\<rparr>
      | Inr _ \<Rightarrow>
        (case get_provider vz provider_name of
           Inl e \<Rightarrow> \<lparr>stdout = [], stderr = [],
                     calls = [NewClient, GetProvider provider_name], ended = Uncaught e\<rparr>
         | Inr None \<Rightarrow>
           (case create_provider vz provider_name ''application'' of
              Inl e \<Rightarrow> \<lparr>stdout = [], stderr = [],
                        calls = [NewClient, GetProvider provider_name,
                                 CreateProvider provider_name ''application''],
                        ended = Uncaught e\<rparr>
            | Inr provider \<Rightarrow>
              (let data_source_name = app_name app @ '' ('' @ app_application_type app @ '')'';
                   (out, err, fin) =
                     push_report (push_application vz provider_name data_source_name app)
               in \<lparr>stdout = out, stderr = err,
                   calls = [NewClient, GetProvider provider_name,
                            CreateProvider provider_name ''application'',
                            PushApplication provider_name data_source_name app],
                   ended = fin\<rparr>))
         | Inr (Some provider) \<Rightarrow>
           (let data_source_name = app_name app @ '' ('' @ app_application_type app @ '')'';
                (out, err, fin) =
                  push_report (push_application vz provider_name data_source_name app)
            in \<lparr>stdout = out, stderr = err,
                calls = [NewClient, GetProvider provider_name,
                         PushApplication provider_name data_source_name app],
                ended = fin\<rparr>)))"

definition model_builder_main :: "pagerduty \<Rightarrow> veza \<Rightarrow> outcome" where
  "model_builder_main pd vz =
     (case build_application pd of
        Inl e \<Rightarrow> \<lparr>stdout = [], stderr = [], calls = [], ended = Uncaught e\<rparr>
      | Inr app \<Rightarrow> connect_and_push vz ''Lab-PagerDuty'' app)"

section \<open>The Seed variant (\<open>seed.python.oaa.py\<close>)\<close>

definition seed_main :: "veza \<Rightarrow> outcome" where
  "seed_main vz = connect_and_push vz ''Sample-PagerDuty'' (CustomApplication ''Sample App'' ''PagerDuty'')"

section \<open>The CSV Pusher (\<open>csvupload.py\<close>)\<close>

text \<open>
  The inputs of the script: the two identifiers from the environment (\<open>os.getenv\<close>
  gives \<open>None\<close> for a variable that is not set) and the bytes of \<open>sample.csv\<close>, or
  the fault of opening or reading it.
\<close>

record csv_inputs =
  provider_id :: "string option"
  data_source_id :: "string option"
  source_csv :: "exn + byte list"

text \<open>Line 41. \<open>encoded_csv.decode()\<close> turns the ASCII bytes of the encoding into text.\<close>

definition make_push_request :: "string option \<Rightarrow> string option \<Rightarrow> byte list \<Rightarrow> push_request" where
  "make_push_request pid dsid file_bytes =
     \<lparr>pr_id = pid, pr_data_source_id = dsid, pr_csv_data = b64encode file_bytes\<rparr>"

definition push_path :: "string option \<Rightarrow> string option \<Rightarrow> string" where
  "push_path pid dsid =
     ''/api/v1/providers/custom/'' @ fmt_str pid @ ''/datasources/'' @ fmt_str dsid @ '':push_csv''"

text \<open>
  The whole script. In the handler of the push (lines 44 to 49) the name \<open>log\<close> is
  used, which the script neither defines nor imports: evaluating \<open>log.error\<close> raises
  \<open>NameError\<close> before anything is reported, and \<open>sys.exit(3)\<close> is not reached.
\<close>

definition csvupload :: "csv_inputs \<Rightarrow> veza \<Rightarrow> outcome" where
  "csvupload inp vz =
     (case new_client vz of
        Inl (OAAClientError e) \<Rightarrow>
          \<lparr>stdout = [''Connecting to Veza'', ''Error connecting to Veza tenant'', err_str e],
           stderr = [], calls = [NewClient], ended = SysExit 1\<rparr>
      | Inl x \<Rightarrow>
          \<lparr>stdout = [''Connecting to Veza''], stderr = [], calls = [NewClient],
           ended = Uncaught x\<rparr>
      | Inr _ \<Rightarrow>
        (case source_csv inp of
           Inl x \<Rightarrow>
             \<lparr>stdout = [''Connecting to Veza'', ''Loading CSV file''], stderr = [],
              calls = [NewClient], ended = Uncaught x\<rparr>
         | Inr file_bytes \<Rightarrow>
           (let request = make_push_request (provider_id inp) (data_source_id inp) file_bytes;
                path = push_path (provider_id inp) (data_source_id inp)
            in case api_post vz path request of
                 Inr _ \<Rightarrow>
                   \<lparr>stdout = [''Connecting to Veza'', ''Loading CSV file'',
                              ''Pushing data to Veza'', ''Push succeeded''],
                    stderr = [], calls = [NewClient, ApiPost path request], ended = Finished\<rparr>
               | Inl (OAAClientError e) \<Rightarrow>
                   \<lparr>stdout = [''Connecting to Veza'', ''Loading CSV file'', ''Pushing data to Veza''],
                    stderr = [], calls = [NewClient, ApiPost path request],
                    ended = Uncaught (NameError ''log'')\<rparr>
               | Inl x \<Rightarrow>
                   \<lparr>stdout = [''Connecting to Veza'', ''Loading CSV file'', ''Pushing data to Veza''],
                    stderr = [], calls = [NewClient, ApiPost path request],
                    ended = Uncaught x\<rparr>)))"

section \<open>Example inputs\<close>

text \<open>Concrete answers of the two services, used to run the scripts on.\<close>

definition example_error :: oaa_error where
  "example_error =
     \<lparr>err_error = ''INVALID_ARGUMENT'', err_message = ''bad payload'',
      err_status_code = Some 400, err_details = [''users[0]: unknown role''],
      err_str = [CHR ''(''] @ [CHR 0x27] @ ''INVALID_ARGUMENT'' @ [CHR 0x27] @ '', ''
                @ [CHR 0x27] @ ''bad payload'' @ [CHR 0x27] @ [CHR '')'']\<rparr>"

text \<open>A platform on which every call succeeds and the provider exists.\<close>

definition veza_ok :: veza where
  "veza_ok =
     \<lparr>new_client = Inr (),
      get_provider = (\<lambda>name. Inr (Some ''provider-1'')),
      create_provider = (\<lambda>name kind. Inr ''provider-1''),
      push_application = (\<lambda>name data_source app. Inr \<lparr>warnings = None\<rparr>),
      api_post = (\<lambda>path body. Inr ())\<rparr>"

text \<open>The same platform, except that it rejects what is pushed.\<close>

definition veza_rejecting :: veza where
  "veza_rejecting =
     veza_ok\<lparr>push_application := (\<lambda>name data_source app. Inl (OAAClientError example_error)),
             api_post := (\<lambda>path body. Inl (OAAClientError example_error))\<rparr>"

text \<open>A platform that accepts the push with one warning.\<close>

definition veza_warning :: veza where
  "veza_warning =
     veza_ok\<lparr>push_application :=
       (\<lambda>name data_source app. Inr \<lparr>warnings = Some [''cannot resolve identity a@x.com'']\<rparr>)\<rparr>"

text \<open>A platform on which the provider does not exist yet.\<close>

definition veza_fresh :: veza where
  "veza_fresh = veza_ok\<lparr>get_provider := (\<lambda>name. Inr None)\<rparr>"

text \<open>A platform whose client cannot be constructed.\<close>

definition veza_unreachable :: veza where
  "veza_unreachable = veza_ok\<lparr>new_client := Inl (OAAClientError example_error)\<rparr>"

text \<open>The user record of the spec's scenario; it has no \<open>name\<close>.\<close>

definition example_user :: pd_user where
  "example_user =
     \<lparr>u_name = None, u_id = Some ''U1'', u_email = Some ''a@x.com'',
      u_role = Some ''responder'', u_billed = Some True\<rparr>"

definition example_team :: pd_team where
  "example_team =
     \<lparr>t_name = Some ''Ops'', t_id = Some ''T1'', t_description = Some ''On call'',
      t_summary = Some ''Ops'', t_default_role = Some ''manager''\<rparr>"

text \<open>One user, one team, the user a member of the team.\<close>

definition example_pagerduty :: pagerduty where
  "example_pagerduty =
     \<lparr>get_users = Inr [example_user],
      get_teams = Inr [example_team],
      get_members = (\<lambda>team_id. Inr [\<lparr>m_user_id = ''U1'', m_role = ''manager''\<rparr>])\<rparr>"

text \<open>
  The same, with the member's id in small letters and a second team member who is not
  among the users fetched.
\<close>

definition pagerduty_unknown_member :: pagerduty where
  "pagerduty_unknown_member =
     example_pagerduty\<lparr>get_members :=
       (\<lambda>team_id. Inr [\<lparr>m_user_id = ''u1'', m_role = ''manager''\<rparr>,
                       \<lparr>m_user_id = ''U101'', m_role = ''observer''\<rparr>])\<rparr>"

text \<open>A second user whose id is the empty string.\<close>

definition empty_id_user :: pd_user where
  "empty_id_user =
     \<lparr>u_name = Some ''Bob'', u_id = Some [], u_email = Some ''b@x.com'',
      u_role = Some ''user'', u_billed = Some False\<rparr>"

definition pagerduty_empty_id :: pagerduty where
  "pagerduty_empty_id = example_pagerduty\<lparr>get_users := Inr [example_user, empty_id_user]\<rparr>"

text \<open>A team whose description has 1025 characters.\<close>

definition pagerduty_long_description :: pagerduty where
  "pagerduty_long_description =
     example_pagerduty\<lparr>get_teams :=
       Inr [example_team\<lparr>t_description := Some (replicate 1025 CHR ''d'')\<rparr>]\<rparr>"

text \<open>A file of ten bytes, and the environment of the CSV Pusher.\<close>

definition example_csv :: csv_inputs where
  "example_csv =
     \<lparr>provider_id = Some ''p-1'', data_source_id = Some ''d-1'',
      source_csv = Inr [105, 100, 44, 110, 97, 109, 101, 10, 49, 44]\<rparr>"

section \<open>Vocabulary of the properties\<close>

text \<open>
  The key under which \<open>add_local_user\<close> stores a user of the source and
  \<open>add_local_group\<close> a team, and the entries that lines 66 and 71 to 77 leave in
  \<open>local_groups\<close> and \<open>resources\<close> for a team.
\<close>

abbreviation user_key :: "pd_user \<Rightarrow> ident" where
  "user_key user \<equiv> entity_key (u_id user) (u_name user)"

abbreviation group_key :: "pd_team \<Rightarrow> ident" where
  "group_key team \<equiv> entity_key (t_id team) (t_name team)"

abbreviation team_group :: "pd_team \<Rightarrow> ident \<times> local_group" where
  "team_group team \<equiv> (group_key team, \<lparr>lg_name = t_name team, lg_unique_id = given (t_id team)\<rparr>)"

abbreviation team_resource :: "pd_team \<Rightarrow> ident \<times> custom_resource" where
  "team_resource team \<equiv>
     (ci_key (t_name team),
      \<lparr>cr_name = t_name team, cr_resource_type = ''team'', cr_unique_id = None,
       cr_description = truncated_description (t_description team),
       cr_properties = [(''pagerduty_id'', of_str (t_id team)),
                        (''summary'', of_str (t_summary team)),
                        (''default_role'', of_str (t_default_role team))]\<rparr>)"

text \<open>
  The local user that the spec's scenario asks for a source user: its unique id, its one
  identity, its role at application scope and its two custom properties.
\<close>

definition user_recorded :: "pd_user \<Rightarrow> local_user \<Rightarrow> bool" where
  "user_recorded user lu \<longleftrightarrow>
     lu_unique_id lu = given (u_id user) \<and>
     lu_identities lu = [u_email user] \<and>
     (case map_of (lu_role_assignments lu) (u_role user) of
        None \<Rightarrow> False | Some ra \<Rightarrow> apply_to_application ra) \<and>
     properties_get (lu_properties lu) ''email'' = of_str (u_email user) \<and>
     properties_get (lu_properties lu) ''is_billed'' = of_bool (u_billed user)"


section \<open>Base64: decoding inverts encoding\<close>

lemma distinct_alphabet: "distinct b64_alphabet"
  unfolding b64_alphabet_def by simp

lemma len_alphabet: "length b64_alphabet = 64"
  unfolding b64_alphabet_def by simp

lemma index_of_nth: "distinct xs \<Longrightarrow> n < length xs \<Longrightarrow> index_of xs (xs ! n) = Some n"
proof (induction xs arbitrary: n)
  case Nil then show ?case by simp
next
  case (Cons y ys)
  show ?case
  proof (cases n)
    case 0 then show ?thesis by simp
  next
    case (Suc m)
    with Cons.prems have "m < length ys" "distinct ys" "ys ! m \<noteq> y" by auto
    with Cons.IH[of m] Suc show ?thesis by simp
  qed
qed

lemma sextet_lt: "take_bit 6 s = s \<Longrightarrow> unat (s::byte) < 64"
proof -
  assume h: "take_bit 6 s = s"
  have "unat (take_bit 6 s) < 2 ^ 6"
    unfolding unsigned_take_bit_eq by (rule take_bit_nat_less_exp)
  with h show ?thesis by simp
qed

lemma b64_index_char: "take_bit 6 s = s \<Longrightarrow> b64_index (b64_char s) = Some s"
  using sextet_lt[of s] index_of_nth[OF distinct_alphabet, of "unat s"]
  by (simp add: b64_index_def b64_char_def len_alphabet)

lemma b64_char_not_pad: "take_bit 6 s = s \<Longrightarrow> b64_char s \<noteq> CHR ''=''"
proof -
  assume "take_bit 6 s = s"
  then have "unat s < length b64_alphabet" using sextet_lt by (simp add: len_alphabet)
  then have "b64_char s \<in> set b64_alphabet" unfolding b64_char_def by (rule nth_mem)
  moreover have "CHR ''='' \<notin> set b64_alphabet" unfolding b64_alphabet_def by simp
  ultimately show ?thesis by metis
qed


lemma back2: "\<not> n < 2 \<Longrightarrow> Suc (Suc (n - 2)) = n" by simp
lemma back4: "\<not> n < 4 \<Longrightarrow> 4 + (n - 4) = (n::nat)" by simp
lemma back6: "\<not> n < 6 \<Longrightarrow> 6 + (n - 6) = (n::nat)" by simp

lemma sextet0_six: "take_bit 6 (sextet0 a) = sextet0 a"
  unfolding sextet0_def by (rule bit_word_eqI) (auto simp: bit_simps dest: bit_imp_le_length)
lemma sextet1_six: "take_bit 6 (sextet1 a b) = sextet1 a b"
  unfolding sextet1_def by (rule bit_word_eqI) (auto simp: bit_simps dest: bit_imp_le_length)
lemma sextet2_six: "take_bit 6 (sextet2 b c) = sextet2 b c"
  unfolding sextet2_def by (rule bit_word_eqI) (auto simp: bit_simps dest: bit_imp_le_length)
lemma sextet3_six: "take_bit 6 (sextet3 c) = sextet3 c"
  unfolding sextet3_def by simp

lemma byte0_sextets: "byte0 (sextet0 a) (sextet1 a b) = a"
proof (rule bit_word_eqI)
  fix n assume "n < LENGTH(8)"
  then show "bit (byte0 (sextet0 a) (sextet1 a b)) n = bit a n"
    unfolding byte0_def sextet0_def sextet1_def
    by (cases "n < 2") (auto simp: bit_simps back2 dest: bit_imp_le_length)
qed

lemma byte1_sextets: "byte1 (sextet1 a b) (sextet2 b c) = b"
proof (rule bit_word_eqI)
  fix n assume "n < LENGTH(8)"
  then show "bit (byte1 (sextet1 a b) (sextet2 b c)) n = bit b n"
    unfolding byte1_def sextet1_def sextet2_def
    by (cases "n < 4") (auto simp: bit_simps back4 dest: bit_imp_le_length)
qed

lemma byte2_sextets: "byte2 (sextet2 b c) (sextet3 c) = c"
proof (rule bit_word_eqI)
  fix n assume "n < LENGTH(8)"
  then show "bit (byte2 (sextet2 b c) (sextet3 c)) n = bit c n"
    unfolding byte2_def sextet2_def sextet3_def
    by (cases "n < 6") (auto simp: bit_simps back6 dest: bit_imp_le_length)
qed

lemmas b64_index_sextet = b64_index_char[OF sextet0_six] b64_index_char[OF sextet1_six]
  b64_index_char[OF sextet2_six] b64_index_char[OF sextet3_six]
lemmas b64_char_sextet_not_pad = b64_char_not_pad[OF sextet0_six] b64_char_not_pad[OF sextet1_six]
  b64_char_not_pad[OF sextet2_six] b64_char_not_pad[OF sextet3_six]
lemmas bytes_of_sextets = byte0_sextets byte1_sextets byte2_sextets

lemma b64encode_Nil_iff: "b64encode bs = [] \<longleftrightarrow> bs = []"
  by (induction bs rule: b64encode.induct) simp_all

lemma b64decode_b64encode: "b64decode (b64encode bs) = Some bs"
proof (induction bs rule: b64encode.induct)
  case 1 show ?case by simp
next
  case (2 a) show ?case
    by (simp add: decode_last_def b64_index_sextet bytes_of_sextets)
next
  case (3 a b) show ?case
    by (simp add: decode_last_def b64_index_sextet b64_char_sextet_not_pad bytes_of_sextets)
next
  case (4 a b c rest)
  then show ?case
    by (simp add: decode_last_def decode_quad_def b64_index_sextet b64_char_sextet_not_pad bytes_of_sextets b64encode_Nil_iff)
qed

section \<open>The loops of the Model Builder\<close>

subsection \<open>Loops\<close>

lemma for_each_append:
  "for_each body (xs @ ys) s =
     (case for_each body xs s of Inl e \<Rightarrow> Inl e | Inr s1 \<Rightarrow> for_each body ys s1)"
  by (induction xs arbitrary: s) (auto split: sum.splits)

lemma for_each_invariant:
  assumes "for_each body xs s = Inr s'"
    and "P [] s"
    and "\<And>pre x a b. P pre a \<Longrightarrow> body x a = Inr b \<Longrightarrow> P (pre @ [x]) b"
  shows "P xs s'"
  using assms(1)
proof (induction xs arbitrary: s' rule: rev_induct)
  case Nil
  with assms(2) show ?case by simp
next
  case (snoc x xs)
  from snoc.prems obtain s1 where s1: "for_each body xs s = Inr s1" and x: "body x s1 = Inr s'"
    by (auto simp: for_each_append split: sum.splits)
  from snoc.IH[OF s1] have "P xs s1" .
  then show ?case using x by (rule assms(3))
qed

subsection \<open>What one step does to the application\<close>

lemma update_last_entry:
  "map_of xs k = None \<Longrightarrow> AList.update k v (xs @ [(k, v0)]) = xs @ [(k, v)]"
  by (induction xs) (auto split: if_splits)

lemma user_step_Inr:
  assumes "user_step user app = Inr app'"
  shows "\<exists>lu. app' = app\<lparr>local_users := local_users app @ [(user_key user, lu)]\<rparr>
            \<and> map_of (local_users app) (user_key user) = None \<and> user_recorded user lu"
  using assms
  by (auto simp: user_step_def add_local_user_def add_role_def set_user_property_def
      store_user_def user_recorded_def Let_def update_last_entry properties_get_def
      split: sum.splits if_splits)

lemma group_step_Inr:
  assumes "group_step team app = Inr app'"
  shows "app' = app\<lparr>local_groups := local_groups app @ [team_group team]\<rparr>
         \<and> map_of (local_groups app) (group_key team) = None"
  using assms
  by (auto simp: group_step_def add_local_group_def Let_def split: if_splits)

lemma resource_step_Inr:
  assumes "resource_step team app = Inr app'"
  shows "app' = app\<lparr>resources := resources app @ [team_resource team]\<rparr>
           \<and> map_of (resources app) (ci_key (t_name team)) = None"
  using assms
  by (auto simp: resource_step_def add_resource_def set_resource_property_def
      store_resource_def entity_key_def given_def Let_def update_last_entry
      split: sum.splits if_splits option.splits)

lemma add_role_recorded:
  assumes "user_recorded user lu"
  shows "user_recorded user (add_role role rs None lu)"
  using assms
  by (auto simp: add_role_def user_recorded_def Let_def AList.update_conv'
      split: if_splits option.splits)

lemma add_group_recorded: "user_recorded user lu \<Longrightarrow> user_recorded user (add_group g lu)"
  by (simp add: add_group_def user_recorded_def)

lemma member_step_Inr:
  assumes "member_step key team_id member app = Inr app'"
  shows "\<exists>lu lu'. map_of (local_users app) (Some (lower (m_user_id member))) = Some lu
           \<and> app' = app\<lparr>local_users := AList.update (Some (lower (m_user_id member))) lu' (local_users app)\<rparr>
           \<and> (\<forall>user. user_recorded user lu \<longrightarrow> user_recorded user lu')"
  using assms
  by (auto simp: member_step_def store_user_def ci_key_def Let_def AList.update_conv'
      split: option.splits intro: add_role_recorded add_group_recorded)

lemma member_step_Inl:
  assumes "member_step key team_id member app = Inl e"
  shows "e = KeyError (Some (lower (m_user_id member)))
         \<and> map_of (local_users app) (Some (lower (m_user_id member))) = None"
  using assms
  by (auto simp: member_step_def store_user_def ci_key_def Let_def AList.update_conv'
      split: option.splits)







subsection \<open>The three loops over the source collections\<close>

lemma users_loop_Inr:
  assumes "for_each user_step users app = Inr app'" and "local_users app = []"
  shows "\<exists>us. app' = app\<lparr>local_users := us\<rparr>
         \<and> distinct (map user_key users)
         \<and> list_all2 (\<lambda>user entry. fst entry = user_key user \<and> user_recorded user (snd entry))
              users us"
proof (rule for_each_invariant[OF assms(1)])
  have "app = app\<lparr>local_users := []\<rparr>" using assms(2) by simp
  then show "\<exists>us. app = app\<lparr>local_users := us\<rparr>
         \<and> distinct (map user_key [])
         \<and> list_all2 (\<lambda>user entry. fst entry = user_key user \<and> user_recorded user (snd entry))
              [] us"
    by auto
next
  fix pre x a b
  assume "\<exists>us. a = app\<lparr>local_users := us\<rparr>
         \<and> distinct (map user_key pre)
         \<and> list_all2 (\<lambda>user entry. fst entry = user_key user \<and> user_recorded user (snd entry))
              pre us"
  then obtain us where a: "a = app\<lparr>local_users := us\<rparr>" and d: "distinct (map user_key pre)"
    and rel: "list_all2 (\<lambda>user entry. fst entry = user_key user \<and> user_recorded user (snd entry)) pre us"
    by blast
  assume step: "user_step x a = Inr b"
  from user_step_Inr[OF step] obtain lu where
    b: "b = a\<lparr>local_users := local_users a @ [(user_key x, lu)]\<rparr>"
    and fresh: "map_of (local_users a) (user_key x) = None" and rec: "user_recorded x lu"
    by blast
  from rel have keys: "map fst us = map user_key pre"
    by (auto simp: list_all2_conv_all_nth intro: nth_equalityI)
  from fresh a have "user_key x \<notin> fst ` set us"
    by (simp add: map_of_eq_None_iff)
  with keys have new: "user_key x \<notin> set (map user_key pre)"
    by (metis list.set_map)
  have "b = app\<lparr>local_users := us @ [(user_key x, lu)]\<rparr>"
    by (simp add: b a)
  moreover have "distinct (map user_key (pre @ [x]))"
    using d new by simp
  moreover have "list_all2 (\<lambda>user entry. fst entry = user_key user \<and> user_recorded user (snd entry))
              (pre @ [x]) (us @ [(user_key x, lu)])"
    using rel rec by (simp add: list_all2_appendI)
  ultimately show "\<exists>us. b = app\<lparr>local_users := us\<rparr>
         \<and> distinct (map user_key (pre @ [x]))
         \<and> list_all2 (\<lambda>user entry. fst entry = user_key user \<and> user_recorded user (snd entry))
              (pre @ [x]) us"
    by blast
qed

lemma groups_loop_Inr:
  assumes "for_each group_step teams app = Inr app'" and "local_groups app = []"
  shows "app' = app\<lparr>local_groups := map team_group teams\<rparr> \<and> distinct (map group_key teams)"
proof (rule for_each_invariant[OF assms(1)])
  show "app = app\<lparr>local_groups := map team_group []\<rparr> \<and> distinct (map group_key [])"
    using assms(2) by simp
next
  fix pre x a b
  assume inv: "a = app\<lparr>local_groups := map team_group pre\<rparr> \<and> distinct (map group_key pre)"
    and step: "group_step x a = Inr b"
  from group_step_Inr[OF step] have
    b: "b = a\<lparr>local_groups := local_groups a @ [team_group x]\<rparr>"
    and fresh: "map_of (local_groups a) (group_key x) = None"
    by blast+
  from inv have a: "a = app\<lparr>local_groups := map team_group pre\<rparr>" by blast
  have ga: "local_groups a = map team_group pre"
    by (subst a) simp
  from fresh have "group_key x \<notin> fst ` set (local_groups a)"
    by (simp add: map_of_eq_None_iff)
  then have "group_key x \<notin> set (map group_key pre)"
    unfolding ga by (simp add: image_image)
  moreover have "b = app\<lparr>local_groups := map team_group (pre @ [x])\<rparr>"
    by (subst b, subst ga, subst a, simp)
  ultimately show "b = app\<lparr>local_groups := map team_group (pre @ [x])\<rparr>
      \<and> distinct (map group_key (pre @ [x]))"
    using inv by simp
qed


lemma resources_loop_Inr:
  assumes "for_each resource_step teams app = Inr app'" and "resources app = []"
  shows "app' = app\<lparr>resources := map team_resource teams\<rparr> \<and> distinct (map (\<lambda>t. ci_key (t_name t)) teams)"
proof (rule for_each_invariant[OF assms(1)])
  show "app = app\<lparr>resources := map team_resource []\<rparr> \<and> distinct (map (\<lambda>t. ci_key (t_name t)) [])"
    using assms(2) by simp
next
  fix pre x a b
  assume inv: "a = app\<lparr>resources := map team_resource pre\<rparr> \<and> distinct (map (\<lambda>t. ci_key (t_name t)) pre)"
    and step: "resource_step x a = Inr b"
  from resource_step_Inr[OF step] have
    b: "b = a\<lparr>resources := resources a @ [team_resource x]\<rparr>"
    and fresh: "map_of (resources a) (ci_key (t_name x)) = None"
    by blast+
  from inv have a: "a = app\<lparr>resources := map team_resource pre\<rparr>" by blast
  have ra: "resources a = map team_resource pre"
    by (subst a) simp
  from fresh have "ci_key (t_name x) \<notin> fst ` set (resources a)"
    by (simp add: map_of_eq_None_iff)
  then have "ci_key (t_name x) \<notin> set (map (\<lambda>t. ci_key (t_name t)) pre)"
    unfolding ra by (simp add: image_image)
  moreover have "b = app\<lparr>resources := map team_resource (pre @ [x])\<rparr>"
    by (subst b, subst ra, subst a, simp)
  ultimately show "b = app\<lparr>resources := map team_resource (pre @ [x])\<rparr>
      \<and> distinct (map (\<lambda>t. ci_key (t_name t)) (pre @ [x]))"
    using inv by simp
qed





subsection \<open>Users, groups and resources together\<close>

lemma add_entities_Inr:
  assumes "add_entities pd app = Inr app'"
    and "local_users app = []" "local_groups app = []" "resources app = []"
  shows "\<exists>users teams us.
           get_users pd = Inr users \<and> get_teams pd = Inr teams
         \<and> app' = app\<lparr>local_users := us, local_groups := map team_group teams,
                       resources := map team_resource teams\<rparr>
         \<and> distinct (map user_key users) \<and> distinct (map group_key teams)
         \<and> distinct (map (\<lambda>t. ci_key (t_name t)) teams)
         \<and> list_all2 (\<lambda>user entry. fst entry = user_key user \<and> user_recorded user (snd entry))
              users us"
proof -
  from assms(1) obtain users app2 teams app3 where
    u: "get_users pd = Inr users" and l1: "for_each user_step users app = Inr app2"
    and t: "get_teams pd = Inr teams" and l2: "for_each group_step teams app2 = Inr app3"
    and l3: "for_each resource_step teams app3 = Inr app'"
    by (auto simp: add_entities_def split: sum.splits)
  from users_loop_Inr[OF l1 assms(2)] obtain us where
    a2: "app2 = app\<lparr>local_users := us\<rparr>" and du: "distinct (map user_key users)"
    and rel: "list_all2 (\<lambda>user entry. fst entry = user_key user \<and> user_recorded user (snd entry)) users us"
    by blast
  have "local_groups app2 = []" using assms(3) by (simp add: a2)
  from groups_loop_Inr[OF l2 this] have
    a3: "app3 = app2\<lparr>local_groups := map team_group teams\<rparr>" and dg: "distinct (map group_key teams)"
    by blast+
  have "resources app3 = []" using assms(4) by (simp add: a3 a2)
  from resources_loop_Inr[OF l3 this] have
    a4: "app' = app3\<lparr>resources := map team_resource teams\<rparr>" and dr: "distinct (map (\<lambda>t. ci_key (t_name t)) teams)"
    by blast+
  have "app' = app\<lparr>local_users := us, local_groups := map team_group teams,
                       resources := map team_resource teams\<rparr>"
    by (simp add: a4 a3 a2)
  with u t du dg dr rel show ?thesis by blast
qed


subsection \<open>The member loop\<close>

lemma for_each_cases:
  assumes "I s"
    and "\<And>x a. x \<in> set xs \<Longrightarrow> I a \<Longrightarrow> (case body x a of Inl e \<Rightarrow> Q e | Inr b \<Rightarrow> I b)"
  shows "case for_each body xs s of Inl e \<Rightarrow> Q e | Inr s' \<Rightarrow> I s'"
  using assms
proof (induction xs arbitrary: s)
  case Nil
  then show ?case by simp
next
  case (Cons x xs)
  from Cons.prems(2)[of x s] Cons.prems(1)
  have here: "case body x s of Inl e \<Rightarrow> Q e | Inr b \<Rightarrow> I b" by simp
  show ?case
  proof (cases "body x s")
    case (Inl e)
    with here show ?thesis by simp
  next
    case (Inr b)
    with here have "I b" by simp
    from Cons.IH[OF this] Cons.prems(2) Inr show ?thesis by simp
  qed
qed


lemma list_all2_update_entry:
  assumes "list_all2 (\<lambda>u entry. fst entry = K u \<and> R u (snd entry)) us xs"
    and "map_of xs k = Some v"
    and "\<And>u. R u v \<Longrightarrow> R u v'"
  shows "list_all2 (\<lambda>u entry. fst entry = K u \<and> R u (snd entry)) us (AList.update k v' xs)"
  using assms(1,2)
proof (induction us xs rule: list_all2_induct)
  case Nil
  then show ?case by simp
next
  case (Cons u us x xs)
  then show ?case using assms(3) by (cases x) (auto split: if_splits)
qed


lemma recorded_keys:
  assumes "list_all2 (\<lambda>user entry. fst entry = user_key user \<and> user_recorded user (snd entry)) users us"
  shows "map fst us = map user_key users"
  using assms by (induction users us rule: list_all2_induct) simp_all

lemma member_step_cases:
  assumes a: "a = app\<lparr>local_users := us\<rparr>"
    and rel: "list_all2 (\<lambda>user entry. fst entry = user_key user \<and> user_recorded user (snd entry)) users us"
  shows "case member_step key team_id member a of
           Inl e \<Rightarrow> e = KeyError (Some (lower (m_user_id member)))
                    \<and> Some (lower (m_user_id member)) \<notin> set (map user_key users)
         | Inr b \<Rightarrow> \<exists>us'. b = app\<lparr>local_users := us'\<rparr>
                    \<and> list_all2 (\<lambda>user entry. fst entry = user_key user \<and> user_recorded user (snd entry)) users us'"
proof (cases "member_step key team_id member a")
  case (Inl e)
  from member_step_Inl[OF Inl] have e: "e = KeyError (Some (lower (m_user_id member)))"
    and "map_of (local_users a) (Some (lower (m_user_id member))) = None" by blast+
  then have "Some (lower (m_user_id member)) \<notin> fst ` set us"
    by (simp add: a map_of_eq_None_iff)
  then have "Some (lower (m_user_id member)) \<notin> set (map user_key users)"
    using recorded_keys[OF rel] by (metis list.set_map)
  with e Inl show ?thesis by simp
next
  case (Inr b)
  from member_step_Inr[OF Inr] obtain lu lu' where
    found: "map_of (local_users a) (Some (lower (m_user_id member))) = Some lu"
    and b: "b = a\<lparr>local_users := AList.update (Some (lower (m_user_id member))) lu' (local_users a)\<rparr>"
    and keep: "\<forall>user. user_recorded user lu \<longrightarrow> user_recorded user lu'"
    by blast
  from found have found': "map_of us (Some (lower (m_user_id member))) = Some lu" by (simp add: a)
  have "list_all2 (\<lambda>user entry. fst entry = user_key user \<and> user_recorded user (snd entry)) users
          (AList.update (Some (lower (m_user_id member))) lu' us)"
    using keep
    by (intro list_all2_update_entry[where K = "\<lambda>u. user_key u" and R = user_recorded, OF rel found']) blast
  moreover have "b = app\<lparr>local_users := AList.update (Some (lower (m_user_id member))) lu' us\<rparr>"
    by (simp add: b a)
  ultimately show ?thesis using Inr by auto
qed

lemma members_loop_cases:
  assumes "\<exists>us. a = app\<lparr>local_users := us\<rparr>
            \<and> list_all2 (\<lambda>user entry. fst entry = user_key user \<and> user_recorded user (snd entry)) users us"
  shows "case for_each (member_step key team_id) members a of
           Inl e \<Rightarrow> \<exists>uid. e = KeyError (Some uid) \<and> Some uid \<notin> set (map user_key users)
         | Inr b \<Rightarrow> \<exists>us'. b = app\<lparr>local_users := us'\<rparr>
                    \<and> list_all2 (\<lambda>user entry. fst entry = user_key user \<and> user_recorded user (snd entry)) users us'"
proof (rule for_each_cases[where I = "\<lambda>a. \<exists>us. a = app\<lparr>local_users := us\<rparr>
            \<and> list_all2 (\<lambda>user entry. fst entry = user_key user \<and> user_recorded user (snd entry)) users us"])
  show "\<exists>us. a = app\<lparr>local_users := us\<rparr>
            \<and> list_all2 (\<lambda>user entry. fst entry = user_key user \<and> user_recorded user (snd entry)) users us"
    by (rule assms)
next
  fix x a'
  assume "\<exists>us. a' = app\<lparr>local_users := us\<rparr>
            \<and> list_all2 (\<lambda>user entry. fst entry = user_key user \<and> user_recorded user (snd entry)) users us"
  then obtain us where a': "a' = app\<lparr>local_users := us\<rparr>"
    and rel: "list_all2 (\<lambda>user entry. fst entry = user_key user \<and> user_recorded user (snd entry)) users us"
    by blast
  from member_step_cases[OF a' rel, where key = key and team_id = team_id and member = x]
  show "case member_step key team_id x a' of
           Inl e \<Rightarrow> \<exists>uid. e = KeyError (Some uid) \<and> Some uid \<notin> set (map user_key users)
         | Inr b \<Rightarrow> \<exists>us'. b = app\<lparr>local_users := us'\<rparr>
                    \<and> list_all2 (\<lambda>user entry. fst entry = user_key user \<and> user_recorded user (snd entry)) users us'"
    by (auto split: sum.splits)
qed



lemma members_step_Inr:
  assumes "\<exists>us. a = app\<lparr>local_users := us\<rparr>
            \<and> list_all2 (\<lambda>user entry. fst entry = user_key user \<and> user_recorded user (snd entry)) users us"
    and "members_step pd entry a = Inr b"
  shows "\<exists>us'. b = app\<lparr>local_users := us'\<rparr>
            \<and> list_all2 (\<lambda>user entry. fst entry = user_key user \<and> user_recorded user (snd entry)) users us'"
proof -
  from assms(2) obtain ms where
    "for_each (member_step (fst entry) (properties_get (cr_properties (snd entry)) ''pagerduty_id'')) ms a = Inr b"
    by (auto simp: members_step_def Let_def split: sum.splits)
  with members_loop_cases[OF assms(1), where key = "fst entry"
      and team_id = "properties_get (cr_properties (snd entry)) ''pagerduty_id''" and members = ms]
  show ?thesis by simp
qed

lemma assign_members_Inr:
  assumes "assign_members pd app = Inr app'"
    and "list_all2 (\<lambda>user entry. fst entry = user_key user \<and> user_recorded user (snd entry))
           users (local_users app)"
  shows "\<exists>us. app' = app\<lparr>local_users := us\<rparr>
            \<and> list_all2 (\<lambda>user entry. fst entry = user_key user \<and> user_recorded user (snd entry)) users us"
proof (rule for_each_invariant[OF assms(1)[unfolded assign_members_def],
      where P = "\<lambda>pre a. \<exists>us. a = app\<lparr>local_users := us\<rparr>
            \<and> list_all2 (\<lambda>user entry. fst entry = user_key user \<and> user_recorded user (snd entry)) users us"])
  have "app = app\<lparr>local_users := local_users app\<rparr>" by simp
  with assms(2) show "\<exists>us. app = app\<lparr>local_users := us\<rparr>
            \<and> list_all2 (\<lambda>user entry. fst entry = user_key user \<and> user_recorded user (snd entry)) users us"
    by blast
next
  fix pre :: "(ident \<times> custom_resource) list" and x a b
  assume "\<exists>us. a = app\<lparr>local_users := us\<rparr>
            \<and> list_all2 (\<lambda>user entry. fst entry = user_key user \<and> user_recorded user (snd entry)) users us"
    and "members_step pd x a = Inr b"
  then show "\<exists>us. b = app\<lparr>local_users := us\<rparr>
            \<and> list_all2 (\<lambda>user entry. fst entry = user_key user \<and> user_recorded user (snd entry)) users us"
    by (rule members_step_Inr)
qed



section \<open>The application that is built\<close>

lemma declare_catalog_eq:
  "declare_catalog =
     Inr \<lparr>app_name = ''Sample App'', app_application_type = ''PagerDuty'',
          property_definitions =
            \<lparr>local_user_properties = [(''email'', STRING), (''is_billed'', BOOLEAN)],
             resource_properties =
               [(''team'', [(''pagerduty_id'', STRING), (''summary'', STRING),
                            (''default_role'', STRING)])]\<rparr>,
          custom_permissions = permission_catalog,
          local_roles =
            map (\<lambda>(name, unique_id, permissions).
                   (unique_id, \<lparr>lr_name = name, lr_unique_id = Some unique_id,
                                lr_permissions = permissions\<rparr>)) role_catalog,
          local_users = [], local_groups = [], resources = []\<rparr>"
  by (simp add: declare_catalog_def add_roles_def add_permissions_def define_properties_def
      CustomApplication_def add_local_role_def add_custom_permission_def
      define_local_user_property_def define_resource_property_def given_def
      permission_catalog_def role_catalog_def Let_def)

lemma build_application_Inr:
  assumes "build_application pd = Inr app"
  shows "\<exists>app1 users teams us.
           declare_catalog = Inr app1
         \<and> get_users pd = Inr users \<and> get_teams pd = Inr teams
         \<and> app = app1\<lparr>local_users := us, local_groups := map team_group teams,
                       resources := map team_resource teams\<rparr>
         \<and> distinct (map user_key users) \<and> distinct (map group_key teams)
         \<and> distinct (map (\<lambda>t. ci_key (t_name t)) teams)
         \<and> list_all2 (\<lambda>user entry. fst entry = user_key user \<and> user_recorded user (snd entry))
              users us"
proof -
  obtain app1 where c: "declare_catalog = Inr app1"
    by (simp add: declare_catalog_eq)
  from assms obtain app4 where
    e: "add_entities pd app1 = Inr app4" and m: "assign_members pd app4 = Inr app"
    by (auto simp: build_application_def c split: sum.splits)
  from c have empty: "local_users app1 = []" "local_groups app1 = []" "resources app1 = []"
    by (auto simp: declare_catalog_eq)
  from add_entities_Inr[OF e empty] obtain users teams us where
    u: "get_users pd = Inr users" and t: "get_teams pd = Inr teams"
    and a4: "app4 = app1\<lparr>local_users := us, local_groups := map team_group teams,
                       resources := map team_resource teams\<rparr>"
    and d: "distinct (map user_key users)" "distinct (map group_key teams)"
           "distinct (map (\<lambda>t. ci_key (t_name t)) teams)"
    and rel: "list_all2 (\<lambda>user entry. fst entry = user_key user \<and> user_recorded user (snd entry)) users us"
    by blast
  have "list_all2 (\<lambda>user entry. fst entry = user_key user \<and> user_recorded user (snd entry))
          users (local_users app4)"
    using rel by (simp add: a4)
  from assign_members_Inr[OF m this] obtain us' where
    a: "app = app4\<lparr>local_users := us'\<rparr>"
    and rel': "list_all2 (\<lambda>user entry. fst entry = user_key user \<and> user_recorded user (snd entry)) users us'"
    by blast
  have "app = app1\<lparr>local_users := us', local_groups := map team_group teams,
                       resources := map team_resource teams\<rparr>"
    by (simp add: a a4)
  with c u t d rel' show ?thesis by blast
qed


lemma build_application_schema:
  assumes "build_application pd = Inr app"
  shows "app_name app = ''Sample App''" and "app_application_type app = ''PagerDuty''"
    and "custom_permissions app = permission_catalog"
    and "local_roles app =
           map (\<lambda>(name, unique_id, permissions).
                  (unique_id, \<lparr>lr_name = name, lr_unique_id = Some unique_id,
                               lr_permissions = permissions\<rparr>)) role_catalog"
proof -
  from build_application_Inr[OF assms] obtain app1 users teams us where
    c: "declare_catalog = Inr app1"
    and a: "app = app1\<lparr>local_users := us, local_groups := map team_group teams,
                       resources := map team_resource teams\<rparr>"
    by blast
  from c show "app_name app = ''Sample App''" and "app_application_type app = ''PagerDuty''"
    and "custom_permissions app = permission_catalog"
    and "local_roles app =
           map (\<lambda>(name, unique_id, permissions).
                  (unique_id, \<lparr>lr_name = name, lr_unique_id = Some unique_id,
                               lr_permissions = permissions\<rparr>)) role_catalog"
    by (auto simp: a declare_catalog_eq)
qed

section \<open>Running the scripts\<close>

text \<open>The definitions that evaluate a run of the Model Builder on concrete inputs.\<close>

lemmas step_defs = model_builder_main_def build_application_def declare_catalog_eq
  add_entities_def assign_members_def
  members_step_def member_step_def resource_step_def group_step_def user_step_def
  add_local_user_def add_local_group_def add_resource_def entity_key_def given_def ci_key_def
  lower_def lower_char_def upper_letters_def lower_letters_def fmt_val_def
  store_user_def store_resource_def add_role_def add_group_def set_user_property_def
  set_resource_property_def truncated_description_def properties_get_def of_str_def of_bool_def
  Let_def

lemmas example_defs = example_pagerduty_def example_user_def example_team_def veza_ok_def
  veza_rejecting_def veza_warning_def veza_fresh_def veza_unreachable_def example_error_def
  pagerduty_unknown_member_def pagerduty_long_description_def example_csv_def
  empty_id_user_def pagerduty_empty_id_def

lemma example_build:
  "\<exists>app. build_application example_pagerduty = Inr app"
  by (simp add: step_defs example_defs)

text \<open>
  When the push is among the calls of a run, the application pushed is the one that was
  built, and what the run prints and how it ends is the report of that push.
\<close>

lemma connect_and_push_pushed:
  assumes "PushApplication name data_source app' \<in> set (calls (connect_and_push vz provider_name app))"
  shows "name = provider_name \<and> app' = app
       \<and> (stdout (connect_and_push vz provider_name app),
          stderr (connect_and_push vz provider_name app),
          ended (connect_and_push vz provider_name app))
         = push_report (push_application vz name data_source app')"
  using assms
  by (auto simp: connect_and_push_def Let_def split: sum.splits option.splits prod.splits)

lemma model_builder_pushed:
  assumes "PushApplication name data_source app \<in> set (calls (model_builder_main pd vz))"
  shows "build_application pd = Inr app
       \<and> (stdout (model_builder_main pd vz), stderr (model_builder_main pd vz),
          ended (model_builder_main pd vz))
         = push_report (push_application vz name data_source app)"
  using assms connect_and_push_pushed[of name data_source app vz "''Lab-PagerDuty''"]
  by (auto simp: model_builder_main_def split: sum.splits)

text \<open>The three ways the CSV Pusher ends once the file is read or the client fails.\<close>

lemma csvupload_connection_failure:
  assumes "new_client vz = Inl (OAAClientError e)"
  shows "ended (csvupload inp vz) = SysExit 1"
    and "stdout (csvupload inp vz)
           = [''Connecting to Veza'', ''Error connecting to Veza tenant'', err_str e]"
    and "calls (csvupload inp vz) = [NewClient]"
  using assms by (simp_all add: csvupload_def)

lemma csvupload_success:
  assumes "new_client vz = Inr u" and "source_csv inp = Inr file_bytes"
    and "api_post vz (push_path (provider_id inp) (data_source_id inp))
           (make_push_request (provider_id inp) (data_source_id inp) file_bytes) = Inr v"
  shows "ended (csvupload inp vz) = Finished"
    and "exit_status (ended (csvupload inp vz)) = 0"
    and "last (stdout (csvupload inp vz)) = ''Push succeeded''"
  using assms by (simp_all add: csvupload_def Let_def)

lemma csvupload_push_error:
  assumes "new_client vz = Inr u" and "source_csv inp = Inr file_bytes"
    and "api_post vz (push_path (provider_id inp) (data_source_id inp))
           (make_push_request (provider_id inp) (data_source_id inp) file_bytes)
         = Inl (OAAClientError e)"
  shows "ended (csvupload inp vz) = Uncaught (NameError ''log'')"
    and "stderr (csvupload inp vz) = []"
    and "exit_status (ended (csvupload inp vz)) = 1"
  using assms by (simp_all add: csvupload_def Let_def)

text \<open>The description of every resource is the source description cut by line 73.\<close>

lemma resource_descriptions:
  assumes "build_application pd = Inr app" and "get_teams pd = Inr teams"
  shows "map (cr_description \<circ> snd) (resources app)
           = map (truncated_description \<circ> t_description) teams"
proof -
  from build_application_Inr[OF assms(1)] assms(2) obtain app1 us where
    "app = app1\<lparr>local_users := us, local_groups := map team_group teams,
                       resources := map team_resource teams\<rparr>"
    by auto
  then show ?thesis by (simp add: comp_def)
qed

lemma truncated_description_length:
  "truncated_description (Some d) = Some d' \<Longrightarrow> d' = take 255 d \<and> length d' = min (length d) 255"
  by (auto simp: truncated_description_def split: if_splits)

section \<open>The vocabulary on examples\<close>

text \<open>Lower-casing on the letters, on characters that are not letters, and on Latin-1.\<close>

lemma lower_capitals: "lower ''ABCDEFGHIJKLMNOPQRSTUVWXYZ'' = ''abcdefghijklmnopqrstuvwxyz''"
  by (simp add: lower_def lower_char_def upper_letters_def lower_letters_def)

lemma lower_unchanged: "lower ''az09 _-@./'' = ''az09 _-@./''"
  by (simp add: lower_def lower_char_def upper_letters_def lower_letters_def)

lemma lower_latin1:
  "lower [CHR 0xC0, CHR 0xC9, CHR 0xD6, CHR 0xD7, CHR 0xD8, CHR 0xDE, CHR 0xDF, CHR 0xFF]
     = [CHR 0xE0, CHR 0xE9, CHR 0xF6, CHR 0xD7, CHR 0xF8, CHR 0xFE, CHR 0xDF, CHR 0xFF]"
  by (simp add: lower_def lower_char_def upper_letters_def lower_letters_def)

text \<open>The key of an entity with an id, with an empty id, and without one.\<close>

lemma entity_key_examples:
  "entity_key (Some ''U1'') (Some ''Alice'') = Some ''u1''"
  "entity_key (Some []) (Some ''Bob'') = Some ''bob''"
  "entity_key None (Some ''Ops'') = Some ''ops''"
  "entity_key None None = None"
  "given (Some ''U1'') = Some ''U1''" "given (Some []) = None" "given None = None"
  by (simp_all add: entity_key_def given_def ci_key_def lower_def lower_char_def
      upper_letters_def lower_letters_def)



text \<open>Values as they are stored and as they are printed.\<close>

lemma stored_values:
  "of_str None = PNone" "of_str (Some s) = PStr s"
  "of_bool None = PNone" "of_bool (Some b) = PBool b"
  by (simp_all add: of_str_def of_bool_def)

lemma printed_values:
  "fmt_nat None = ''None''" "fmt_nat (Some 0) = ''0''" "fmt_nat (Some 7) = ''7''"
  "fmt_nat (Some 400) = ''400''" "fmt_nat (Some 1024) = ''1024''"
  "fmt_str None = ''None''" "fmt_str (Some s) = s"
  "fmt_val PNone = ''None''" "fmt_val (PStr s) = s"
  "fmt_val (PBool True) = ''True''" "fmt_val (PBool False) = ''False''"
  by (simp_all add: fmt_nat_def fmt_str_def fmt_val_def)

text \<open>A group and a resource of a role are recorded once.\<close>

lemma add_group_twice: "add_group g (add_group g u) = add_group g u"
  by (simp add: add_group_def)

lemma add_role_twice:
  "add_role role [k] None (add_role role [k] None u) = add_role role [k] None u"
  by (simp add: add_role_def Let_def AList.update_conv')

section \<open>The claims\<close>

subsection \<open>C1\<close>

text \<open>
  Claim C1, as the code has it. In every run of the Model Builder in which the push is
  called and raises \<open>OAAClientError\<close>, the error stream receives one line with the
  error's code, message and status code and then one line per detail; nothing is printed
  on the output, \<open>main\<close> returns after the handler and the process ends with exit
  status 0.
\<close>

theorem builder_push_error_reported:
  assumes "PushApplication name data_source app \<in> set (calls (model_builder_main pd vz))"
    and "push_application vz name data_source app = Inl (OAAClientError e)"
  shows "stderr (model_builder_main pd vz)
           = (''-- Error: '' @ err_error e @ '': '' @ err_message e
                @ '' ('' @ fmt_nat (err_status_code e) @ '')'')
             # map (\<lambda>d. ''  -- '' @ d) (err_details e)
       \<and> stdout (model_builder_main pd vz) = []
       \<and> ended (model_builder_main pd vz) = Finished
       \<and> exit_status (ended (model_builder_main pd vz)) = 0"
  using model_builder_pushed[OF assms(1)] assms(2)
  by (simp add: push_report_def error_line_def)

text \<open>The run on the example source against a platform that rejects the push.\<close>

theorem builder_push_error_reported_witness:
  "stderr (model_builder_main example_pagerduty veza_rejecting)
     = [''-- Error: INVALID_ARGUMENT: bad payload (400)'', ''  -- users[0]: unknown role'']
   \<and> exit_status (ended (model_builder_main example_pagerduty veza_rejecting)) = 0"
proof -
  obtain app where b: "build_application example_pagerduty = Inr app"
    using example_build by blast
  have c: "PushApplication ''Lab-PagerDuty'' ''Sample App (PagerDuty)'' app
             \<in> set (calls (model_builder_main example_pagerduty veza_rejecting))"
    using b build_application_schema(1,2)[OF b]
    by (simp add: model_builder_main_def connect_and_push_def veza_rejecting_def veza_ok_def
        Let_def push_report_def split: prod.splits)
  have p: "push_application veza_rejecting ''Lab-PagerDuty'' ''Sample App (PagerDuty)'' app
             = Inl (OAAClientError example_error)"
    by (simp add: veza_rejecting_def veza_ok_def)
  from builder_push_error_reported[OF c p] show ?thesis
    by (simp add: example_error_def fmt_nat_def)
qed

text \<open>
  Claim C1 as stated asks for a non-zero exit status after a rejected push. On the example
  the error is reported on the error stream and the exit status is 0.
\<close>

theorem builder_push_error_exit_counterexample:
  "stderr (model_builder_main example_pagerduty veza_rejecting)
     = [''-- Error: INVALID_ARGUMENT: bad payload (400)'', ''  -- users[0]: unknown role'']
   \<and> \<not> exit_status (ended (model_builder_main example_pagerduty veza_rejecting)) \<noteq> 0"
  by (simp add: step_defs example_defs connect_and_push_def push_report_def error_line_def fmt_nat_def)


subsection \<open>C2\<close>

text \<open>
  Claim C2 at a rejected push. The CSV Pusher run on a ten-byte file against a platform
  whose \<open>api_post\<close> raises \<open>OAAClientError\<close>: the handler stops at the undefined
  name \<open>log\<close>, nothing is written to the error channel by the script, the exception
  \<open>NameError\<close> is uncaught and the exit status is 1, not 3.
\<close>

theorem csv_push_error_name_error:
  "api_post veza_rejecting (push_path (provider_id example_csv) (data_source_id example_csv))
      (make_push_request (provider_id example_csv) (data_source_id example_csv)
         [105, 100, 44, 110, 97, 109, 101, 10, 49, 44])
     = Inl (OAAClientError example_error)
   \<and> ended (csvupload example_csv veza_rejecting) = Uncaught (NameError ''log'')
   \<and> stderr (csvupload example_csv veza_rejecting) = []
   \<and> exit_status (ended (csvupload example_csv veza_rejecting)) = 1"
  by (simp add: csvupload_def example_csv_def veza_rejecting_def veza_ok_def Let_def)


subsection \<open>C3\<close>

text \<open>
  Claim C3 at a description of 1025 characters. The Model Builder sets the resource's
  description to the first 255 characters of the source description, not to the first
  1024 that the comment of line 72 names.
\<close>

theorem description_cut_at_255:
  "map_sum id (map (cr_description \<circ> snd) \<circ> resources)
      (build_application pagerduty_long_description)
     = Inr [Some (replicate 255 CHR ''d'')]
   \<and> map_sum id (map (map_option length \<circ> cr_description \<circ> snd) \<circ> resources)
      (build_application pagerduty_long_description)
     = Inr [Some 255]"
  by (simp add: step_defs example_defs)


subsection \<open>C4\<close>




subsection \<open>C5\<close>

text \<open>
  Claim C5, as the code has it. For every user record of the source with a non-empty id,
  an email, a role and a billed value, in a run that reaches the push, the application
  holds, under the lower-cased id, a local user whose unique id is the record's id, whose
  identities are the one-element list of the record's email, to whom the record's role is
  assigned at application scope, and whose properties \<open>email\<close> and \<open>is_billed\<close> are
  the record's email and billed value.
\<close>

theorem local_user_of_record:
  assumes "build_application pd = Inr app"
    and "get_users pd = Inr users"
    and "\<lparr>u_name = name, u_id = Some i, u_email = Some email, u_role = Some role,
          u_billed = Some billed\<rparr> \<in> set users"
    and "i \<noteq> []"
  shows "\<exists>lu. map_of (local_users app) (Some (lower i)) = Some lu
            \<and> lu_unique_id lu = Some i
            \<and> lu_identities lu = [Some email]
            \<and> (\<exists>ra. map_of (lu_role_assignments lu) (Some role) = Some ra
                    \<and> apply_to_application ra)
            \<and> properties_get (lu_properties lu) ''email'' = PStr email
            \<and> properties_get (lu_properties lu) ''is_billed'' = PBool billed"
proof -
  let ?user = "\<lparr>u_name = name, u_id = Some i, u_email = Some email, u_role = Some role,
          u_billed = Some billed\<rparr>"
  from build_application_Inr[OF assms(1)] assms(2) obtain app1 teams us where
    a: "app = app1\<lparr>local_users := us, local_groups := map team_group teams,
                       resources := map team_resource teams\<rparr>"
    and d: "distinct (map user_key users)"
    and rel: "list_all2 (\<lambda>user entry. fst entry = user_key user \<and> user_recorded user (snd entry)) users us"
    by auto
  from assms(3) obtain n where n: "n < length users" "users ! n = ?user"
    by (auto simp: in_set_conv_nth)
  from rel n have len: "n < length us" and key: "fst (us ! n) = user_key ?user"
    and rec: "user_recorded ?user (snd (us ! n))"
    by (auto simp: list_all2_conv_all_nth)
  have k: "user_key ?user = Some (lower i)"
    using assms(4) by (simp add: entity_key_def given_def ci_key_def)
  from d recorded_keys[OF rel] have "distinct (map fst us)" by simp
  moreover from len key k have "(Some (lower i), snd (us ! n)) \<in> set us"
    by (metis nth_mem prod.collapse)
  ultimately have "map_of us (Some (lower i)) = Some (snd (us ! n))"
    by (rule map_of_is_SomeI)
  then have "map_of (local_users app) (Some (lower i)) = Some (snd (us ! n))"
    by (simp add: a)
  with rec assms(4) show ?thesis
    by (auto simp: user_recorded_def given_def of_str_def of_bool_def split: option.splits)
qed

text \<open>
  The scenario of the claim: the record with id U1, email a@x.com, role responder and
  billed true.
\<close>

theorem local_user_of_record_witness:
  "\<exists>app lu. build_application example_pagerduty = Inr app
     \<and> map_of (local_users app) (Some ''u1'') = Some lu
     \<and> lu_unique_id lu = Some ''U1''
     \<and> lu_identities lu = [Some ''a@x.com'']
     \<and> (\<exists>ra. map_of (lu_role_assignments lu) (Some ''responder'') = Some ra
             \<and> apply_to_application ra)
     \<and> properties_get (lu_properties lu) ''email'' = PStr ''a@x.com''
     \<and> properties_get (lu_properties lu) ''is_billed'' = PBool True"
proof -
  obtain app where b: "build_application example_pagerduty = Inr app"
    using example_build by blast
  have u: "get_users example_pagerduty = Inr [example_user]"
    by (simp add: example_pagerduty_def)
  have m: "\<lparr>u_name = None, u_id = Some ''U1'', u_email = Some ''a@x.com'',
            u_role = Some ''responder'', u_billed = Some True\<rparr> \<in> set [example_user]"
    by (simp add: example_user_def)
  have n: "''U1'' \<noteq> []" by simp
  from local_user_of_record[OF b u m n] b show ?thesis
    by (simp add: lower_def lower_char_def upper_letters_def lower_letters_def)
qed

text \<open>
  Claim C5 as stated covers every record. For the record of Bob, whose id is the empty
  string, the local user has no unique id, which is not the record's id.
\<close>

theorem empty_id_counterexample:
  "map_sum id (map (lu_unique_id \<circ> snd) \<circ> local_users) (build_application pagerduty_empty_id)
     = Inr [Some ''U1'', None]
   \<and> map u_id [example_user, empty_id_user] = [Some ''U1'', Some []]
   \<and> None \<noteq> u_id empty_id_user"
  by (simp add: step_defs example_defs)

subsection \<open>C6\<close>

text \<open>
  Claim C6. In every run of the Model Builder or of the Seed variant in which the push is
  called and returns a response with a non-empty list of warnings, the output receives the
  heading and then one line per warning, nothing goes to the error stream, and the process
  ends with exit status 0.
\<close>

theorem push_warnings_reported:
  assumes "run = model_builder_main pd vz \<or> run = seed_main vz"
    and "PushApplication name data_source app \<in> set (calls run)"
    and "push_application vz name data_source app = Inr r"
    and "warnings r = Some ws" and "ws \<noteq> []"
  shows "stdout run = ''-- Push succeeded with warnings:'' # map (\<lambda>e. ''  - '' @ e) ws
       \<and> stderr run = []
       \<and> ended run = Finished
       \<and> exit_status (ended run) = 0"
proof -
  have "(stdout run, stderr run, ended run) = push_report (push_application vz name data_source app)"
    using assms(1)
  proof
    assume "run = model_builder_main pd vz"
    with model_builder_pushed[of name data_source app pd vz] assms(2) show ?thesis by simp
  next
    assume "run = seed_main vz"
    with connect_and_push_pushed[of name data_source app vz "''Sample-PagerDuty''"] assms(2)
    show ?thesis by (simp add: seed_main_def)
  qed
  with assms(3-5) show ?thesis by (simp add: push_report_def)
qed

text \<open>Both scripts against a platform that answers the push with one warning.\<close>

theorem push_warnings_reported_witness:
  "stdout (model_builder_main example_pagerduty veza_warning)
     = [''-- Push succeeded with warnings:'', ''  - cannot resolve identity a@x.com'']
   \<and> exit_status (ended (model_builder_main example_pagerduty veza_warning)) = 0
   \<and> stdout (seed_main veza_warning)
     = [''-- Push succeeded with warnings:'', ''  - cannot resolve identity a@x.com'']
   \<and> exit_status (ended (seed_main veza_warning)) = 0"
proof -
  obtain app where b: "build_application example_pagerduty = Inr app"
    using example_build by blast
  have c1: "PushApplication ''Lab-PagerDuty'' ''Sample App (PagerDuty)'' app
             \<in> set (calls (model_builder_main example_pagerduty veza_warning))"
    using b build_application_schema(1,2)[OF b]
    by (simp add: model_builder_main_def connect_and_push_def veza_warning_def veza_ok_def
        Let_def push_report_def split: prod.splits)
  have c2: "PushApplication ''Sample-PagerDuty'' ''Sample App (PagerDuty)''
              (CustomApplication ''Sample App'' ''PagerDuty'')
             \<in> set (calls (seed_main veza_warning))"
    by (simp add: seed_main_def connect_and_push_def veza_warning_def veza_ok_def
        Let_def push_report_def CustomApplication_def split: prod.splits)
  have p: "push_application veza_warning n d a = Inr \<lparr>warnings = Some [''cannot resolve identity a@x.com'']\<rparr>"
    for n d a
    by (simp add: veza_warning_def veza_ok_def)
  from push_warnings_reported[OF disjI1[OF refl] c1 p, of "[''cannot resolve identity a@x.com'']"]
    push_warnings_reported[OF disjI2[OF refl] c2 p, of "[''cannot resolve identity a@x.com'']"]
  show ?thesis by simp
qed


subsection \<open>C7\<close>

text \<open>
  Claim C7. Whatever bytes are read from the source file, the CSV Pusher posts to the
  push path a body whose \<open>id\<close> is the provider identifier, whose
  \<open>data_source_id\<close> is the data source identifier, and whose \<open>csv_data\<close>
  decodes from base64 to exactly the bytes of the file.
\<close>

theorem csv_push_body_roundtrip:
  assumes "new_client vz = Inr u" and "source_csv inp = Inr file_bytes"
  shows "calls (csvupload inp vz)
           = [NewClient,
              ApiPost (push_path (provider_id inp) (data_source_id inp))
                (make_push_request (provider_id inp) (data_source_id inp) file_bytes)]
       \<and> pr_id (make_push_request (provider_id inp) (data_source_id inp) file_bytes)
           = provider_id inp
       \<and> pr_data_source_id (make_push_request (provider_id inp) (data_source_id inp) file_bytes)
           = data_source_id inp
       \<and> b64decode (pr_csv_data
            (make_push_request (provider_id inp) (data_source_id inp) file_bytes))
           = Some file_bytes"
proof -
  have "calls (csvupload inp vz)
           = [NewClient,
              ApiPost (push_path (provider_id inp) (data_source_id inp))
                (make_push_request (provider_id inp) (data_source_id inp) file_bytes)]"
    using assms by (auto simp: csvupload_def Let_def split: sum.splits exn.splits)
  then show ?thesis
    by (simp add: make_push_request_def b64decode_b64encode)
qed

text \<open>A file of ten bytes.\<close>

theorem csv_push_body_roundtrip_witness:
  "length [105, 100, 44, 110, 97, 109, 101, 10, 49, 44 :: byte] = 10
   \<and> calls (csvupload example_csv veza_ok)
       = [NewClient,
          ApiPost ''/api/v1/providers/custom/p-1/datasources/d-1:push_csv''
            (make_push_request (Some ''p-1'') (Some ''d-1'')
               [105, 100, 44, 110, 97, 109, 101, 10, 49, 44])]
   \<and> b64decode (pr_csv_data (make_push_request (Some ''p-1'') (Some ''d-1'')
         [105, 100, 44, 110, 97, 109, 101, 10, 49, 44]))
       = Some [105, 100, 44, 110, 97, 109, 101, 10, 49, 44]"
proof -
  have n: "new_client veza_ok = Inr ()" by (simp add: veza_ok_def)
  have f: "source_csv example_csv = Inr [105, 100, 44, 110, 97, 109, 101, 10, 49, 44]"
    by (simp add: example_csv_def)
  from csv_push_body_roundtrip[OF n f] show ?thesis
    by (simp add: example_csv_def push_path_def fmt_str_def)
qed


subsection \<open>C8\<close>

text \<open>
  Claim C8. Whatever the source API answers, the application that is pushed carries the
  same catalog: the ten permissions of the table, with distinct names, each with at least
  one right and only rights among DataRead, DataWrite, DataDelete, MetadataRead and
  MetadataWrite; and the nine roles of the table, with distinct unique ids, each with
  exactly one permission, the declared permission whose name is the role's unique id.
\<close>

theorem static_catalog:
  assumes "build_application pd = Inr app"
  shows "custom_permissions app = permission_catalog
       \<and> length (custom_permissions app) = 10
       \<and> distinct (map fst (custom_permissions app))
       \<and> list_all (\<lambda>(name, rights). rights \<noteq> []
             \<and> set rights \<subseteq> {DataRead, DataWrite, DataDelete, MetadataRead, MetadataWrite})
           (custom_permissions app)
       \<and> map (\<lambda>(key, role). (lr_name role, key, lr_permissions role)) (local_roles app)
           = role_catalog
       \<and> length (local_roles app) = 9
       \<and> distinct (map fst (local_roles app))
       \<and> list_all (\<lambda>(key, role). lr_unique_id role = Some key \<and> lr_permissions role = [key]
             \<and> key \<in> set (map fst (custom_permissions app)))
           (local_roles app)"
proof -
  note schema = build_application_schema(3,4)[OF assms]
  have "custom_permissions app = permission_catalog" by (rule schema(1))
  moreover have "length (custom_permissions app) = 10"
    by (simp add: schema(1) permission_catalog_def)
  moreover have "distinct (map fst (custom_permissions app))"
    by (simp add: schema(1) permission_catalog_def)
  moreover have "list_all (\<lambda>(name, rights). rights \<noteq> []
             \<and> set rights \<subseteq> {DataRead, DataWrite, DataDelete, MetadataRead, MetadataWrite})
           (custom_permissions app)"
    by (simp add: schema(1) permission_catalog_def)
  moreover have "map (\<lambda>(key, role). (lr_name role, key, lr_permissions role)) (local_roles app)
           = role_catalog"
    by (simp add: schema(2) role_catalog_def)
  moreover have "length (local_roles app) = 9"
    by (simp add: schema(2) role_catalog_def)
  moreover have "distinct (map fst (local_roles app))"
    by (simp add: schema(2) role_catalog_def)
  moreover have "list_all (\<lambda>(key, role). lr_unique_id role = Some key \<and> lr_permissions role = [key]
             \<and> key \<in> set (map fst (custom_permissions app)))
           (local_roles app)"
    by (simp add: schema permission_catalog_def role_catalog_def)
  ultimately show ?thesis by blast
qed

text \<open>Two different sources give the same catalog of ten permissions and nine roles.\<close>

theorem static_catalog_witness:
  "map_sum id custom_permissions (build_application example_pagerduty) = Inr permission_catalog
   \<and> map_sum id (length \<circ> custom_permissions) (build_application example_pagerduty) = Inr 10
   \<and> map_sum id (length \<circ> local_roles) (build_application example_pagerduty) = Inr 9
   \<and> map_sum id custom_permissions (build_application pagerduty_long_description)
       = Inr permission_catalog"
proof -
  obtain app where b: "build_application example_pagerduty = Inr app"
    using example_build by blast
  have "\<exists>app. build_application pagerduty_long_description = Inr app"
    by (simp add: step_defs example_defs)
  then obtain app' where b': "build_application pagerduty_long_description = Inr app'"
    by blast
  from static_catalog[OF b] have "custom_permissions app = permission_catalog"
    and "length (custom_permissions app) = 10" and "length (local_roles app) = 9"
    by blast+
  moreover from static_catalog[OF b'] have "custom_permissions app' = permission_catalog"
    by blast
  ultimately show ?thesis
    by (simp add: b b')
qed


subsection \<open>C9\<close>

text \<open>
  Claim C9. The Seed variant, once the client is constructed and the provider is found or
  created, makes the calls of the Model Builder's last step (the provider is looked up by
  name and created only when the lookup finds none) and pushes an application without
  property definitions, permissions, roles, users, groups or resources.
\<close>

theorem seed_pushes_empty_graph:
  assumes "new_client vz = Inr u"
    and "get_provider vz ''Sample-PagerDuty'' = Inr found"
    and "found = None \<longrightarrow> (\<exists>p. create_provider vz ''Sample-PagerDuty'' ''application'' = Inr p)"
  shows "calls (seed_main vz)
           = [NewClient, GetProvider ''Sample-PagerDuty'']
             @ (if found = None then [CreateProvider ''Sample-PagerDuty'' ''application''] else [])
             @ [PushApplication ''Sample-PagerDuty'' ''Sample App (PagerDuty)''
                  (CustomApplication ''Sample App'' ''PagerDuty'')]
       \<and> local_user_properties (property_definitions (CustomApplication ''Sample App'' ''PagerDuty'')) = []
       \<and> resource_properties (property_definitions (CustomApplication ''Sample App'' ''PagerDuty'')) = []
       \<and> custom_permissions (CustomApplication ''Sample App'' ''PagerDuty'') = []
       \<and> local_roles (CustomApplication ''Sample App'' ''PagerDuty'') = []
       \<and> local_users (CustomApplication ''Sample App'' ''PagerDuty'') = []
       \<and> local_groups (CustomApplication ''Sample App'' ''PagerDuty'') = []
       \<and> resources (CustomApplication ''Sample App'' ''PagerDuty'') = []"
proof -
  have "calls (seed_main vz)
           = [NewClient, GetProvider ''Sample-PagerDuty'']
             @ (if found = None then [CreateProvider ''Sample-PagerDuty'' ''application''] else [])
             @ [PushApplication ''Sample-PagerDuty'' ''Sample App (PagerDuty)''
                  (CustomApplication ''Sample App'' ''PagerDuty'')]"
    using assms
    by (cases found)
      (auto simp: seed_main_def connect_and_push_def Let_def CustomApplication_def
        split: prod.splits)
  then show ?thesis by (simp add: CustomApplication_def)
qed

text \<open>A platform without the provider, and one that has it.\<close>

theorem seed_pushes_empty_graph_witness:
  "calls (seed_main veza_fresh)
     = [NewClient, GetProvider ''Sample-PagerDuty'',
        CreateProvider ''Sample-PagerDuty'' ''application'',
        PushApplication ''Sample-PagerDuty'' ''Sample App (PagerDuty)''
          (CustomApplication ''Sample App'' ''PagerDuty'')]
   \<and> calls (seed_main veza_ok)
     = [NewClient, GetProvider ''Sample-PagerDuty'',
        PushApplication ''Sample-PagerDuty'' ''Sample App (PagerDuty)''
          (CustomApplication ''Sample App'' ''PagerDuty'')]"
proof -
  have n: "new_client veza_fresh = Inr ()" "new_client veza_ok = Inr ()"
    by (simp_all add: veza_fresh_def veza_ok_def)
  have g: "get_provider veza_fresh ''Sample-PagerDuty'' = Inr None"
    "get_provider veza_ok ''Sample-PagerDuty'' = Inr (Some ''provider-1'')"
    by (simp_all add: veza_fresh_def veza_ok_def)
  have c: "None = None \<longrightarrow> (\<exists>p. create_provider veza_fresh ''Sample-PagerDuty'' ''application'' = Inr p)"
    "Some ''provider-1'' = None \<longrightarrow> (\<exists>p. create_provider veza_ok ''Sample-PagerDuty'' ''application'' = Inr p)"
    by (simp_all add: veza_fresh_def veza_ok_def)
  from seed_pushes_empty_graph[OF n(1) g(1) c(1)] seed_pushes_empty_graph[OF n(2) g(2) c(2)]
  show ?thesis by simp
qed


subsection \<open>C10\<close>



end
